theory Spec2Isabelle
  imports Complex_Main "HOL-Library.Sublist" "HOL-Library.Char_ord"
begin

section \<open>JavaScript values\<close>

text \<open>
  Both programs work on untyped JSON data: the proxy on the parsed request body and on the
  provider's response object, the client on the parsed body of the proxy's answer. A value
  is one of the JavaScript kinds that JSON data has, plus \<open>undefined\<close> (what reading a
  missing property gives). Numbers are rationals: every finite double is one, and the code
  only asks whether a number is zero or positive. A string is a list of characters, each
  standing for one code unit in the range U+0000 to U+00FF. An object is the list of its own
  properties; when a key is listed twice the first entry is the property.
\<close>

datatype jv =
    JUndefined
  | JNull
  | JBool bool
  | JNum rat
  | JStr string
  | JArr "jv list"
  | JObj "(string \<times> jv) list"

text \<open>
  What a \<open>throw\<close> carries. \<open>HttpError n\<close> is
  \<^verbatim>\<open>new Error(`HTTP error! status: ${n}`)\<close> of the retry wrapper; the string of the others
  is the message.
\<close>

datatype js_error =
    TypeError string
  | SyntaxError string
  | HttpError nat
  | OtherError string

text \<open>Sequencing of steps that may throw: the first error ends the computation.\<close>

definition ebind :: "js_error + 'a \<Rightarrow> ('a \<Rightarrow> js_error + 'b) \<Rightarrow> js_error + 'b" where
  "ebind m f = (case m of Inl e \<Rightarrow> Inl e | Inr v \<Rightarrow> f v)"

text \<open>\<open>if (v)\<close>, \<open>!v\<close>, \<open>a && b\<close>: the values that count as false are
  \<open>undefined\<close>, \<open>null\<close>, \<open>false\<close>, \<open>0\<close> and the empty string.\<close>

fun truthy :: "jv \<Rightarrow> bool" where
  "truthy JUndefined = False"
| "truthy JNull = False"
| "truthy (JBool b) = b"
| "truthy (JNum n) = (n \<noteq> 0)"
| "truthy (JStr s) = (s \<noteq> [])"
| "truthy (JArr xs) = True"
| "truthy (JObj kvs) = True"

fun nullish :: "jv \<Rightarrow> bool" where
  "nullish JUndefined = True"
| "nullish JNull = True"
| "nullish v = False"

text \<open>\<open>Array.isArray(v)\<close>.\<close>

fun isArray :: "jv \<Rightarrow> bool" where
  "isArray (JArr xs) = True"
| "isArray v = False"

text \<open>
  \<open>v.k\<close> for a value that is neither \<open>null\<close> nor \<open>undefined\<close>, and a key that no
  prototype defines. The programs read the keys \<open>chatHistory\<close>, \<open>candidates\<close>,
  \<open>content\<close>, \<open>parts\<close>, \<open>text\<close>, \<open>groundingMetadata\<close>,
  \<open>groundingAttributions\<close>, \<open>web\<close>, \<open>uri\<close>, \<open>title\<close>, \<open>sources\<close> and
  \<open>role\<close>: an object has them only as own properties, and arrays, strings, numbers
  and booleans do not have them.
\<close>

fun js_prop :: "jv \<Rightarrow> string \<Rightarrow> jv" where
  "js_prop (JObj kvs) k = (case map_of kvs k of None \<Rightarrow> JUndefined | Some v \<Rightarrow> v)"
| "js_prop v k = JUndefined"

text \<open>\<open>v[0]\<close> for a value that is neither \<open>null\<close> nor \<open>undefined\<close>.\<close>

fun index0 :: "jv \<Rightarrow> jv" where
  "index0 (JArr xs) = (case xs of [] \<Rightarrow> JUndefined | x # rest \<Rightarrow> x)"
| "index0 (JStr s) = (case s of [] \<Rightarrow> JUndefined | c # rest \<Rightarrow> JStr [c])"
| "index0 (JObj kvs) = js_prop (JObj kvs) ''0''"
| "index0 v = JUndefined"

text \<open>Plain member access throws a TypeError on \<open>null\<close> and \<open>undefined\<close>.\<close>

definition get :: "jv \<Rightarrow> string \<Rightarrow> js_error + jv" where
  "get v k = (if nullish v then Inl (TypeError k) else Inr (js_prop v k))"

definition get0 :: "jv \<Rightarrow> js_error + jv" where
  "get0 v = (if nullish v then Inl (TypeError ''0'') else Inr (index0 v))"

text \<open>Optional chaining, \<open>v?.k\<close> and \<open>v?.[0]\<close>, gives \<open>undefined\<close> there instead.\<close>

definition opt_prop :: "jv \<Rightarrow> string \<Rightarrow> jv" where
  "opt_prop v k = (if nullish v then JUndefined else js_prop v k)"

definition opt_index0 :: "jv \<Rightarrow> jv" where
  "opt_index0 v = (if nullish v then JUndefined else index0 v)"

text \<open>\<open>xs.map(f)\<close> on an array, for a callback that may throw: the elements are visited
  in order and the first throw ends the call.\<close>

fun map_throwing :: "('a \<Rightarrow> js_error + 'b) \<Rightarrow> 'a list \<Rightarrow> js_error + 'b list" where
  "map_throwing f [] = Inr []"
| "map_throwing f (x # xs) =
     (case f x of
        Inl e \<Rightarrow> Inl e
      | Inr y \<Rightarrow> (case map_throwing f xs of Inl e \<Rightarrow> Inl e | Inr ys \<Rightarrow> Inr (y # ys)))"


section \<open>The proxy (server.js)\<close>

subsection \<open>Configuration\<close>

definition MODEL_NAME :: string where
  "MODEL_NAME = ''gemini-2.5-flash-preview-09-2025''"

definition SYSTEM_PROMPT :: string where
  "SYSTEM_PROMPT =
     ''You are 'Nutrition Bot,' an expert, friendly, and encouraging meal and diet planner. '' @
     ''Your primary goal is to provide healthy, balanced, and evidence-based nutrition advice, '' @
     ''customized meal ideas, and general dietary information. \<newline>'' @
     ''When providing meal plans or complex lists:\<newline>'' @
     ''1. Use Markdown formatting (e.g., **bold**, *italics*, lists) to make the response easy to read.\<newline>'' @
     ''2. Ensure the advice is practical and includes macronutrient context or portion guidance where applicable.\<newline>'' @
     ''3. Always maintain a professional, optimistic, and supportive tone.\<newline>'' @
     ''Use the Google Search tool to ensure all facts, recommended foods, and dietary guidelines are current and accurate.''"

subsection \<open>Requests, responses and the provider\<close>

text \<open>The argument of \<open>ai.models.generateContent\<close>.\<close>

record generate_request =
  model :: string
  contents :: jv
  tools :: jv
  systemInstruction :: string

text \<open>
  The provider is outside the program: a call either throws or gives a response object.
\<close>

type_synonym provider = "generate_request \<Rightarrow> js_error + jv"

record http_response =
  status :: nat
  body :: jv

text \<open>
  What one run of the route's handler does: the response it sends, the provider calls it
  makes and the lines it writes with \<open>console.error\<close>.
\<close>

record served =
  response :: http_response
  provider_calls :: "generate_request list"
  console :: "(string \<times> js_error) list"

subsection \<open>Normalising the provider's response (lines 60 to 77)\<close>

definition placeholder_text :: string where
  "placeholder_text = ''Sorry, I couldn't generate a response. Please try again.''"

text \<open>\<open>response.candidates?.[0]\<close>\<close>

definition first_candidate :: "jv \<Rightarrow> js_error + jv" where
  "first_candidate resp = ebind (get resp ''candidates'') (\<lambda>cs. Inr (opt_index0 cs))"

text \<open>\<open>candidate.content?.parts?.[0]?.text\<close>\<close>

definition candidate_text :: "jv \<Rightarrow> js_error + jv" where
  "candidate_text candidate =
     ebind (get candidate ''content'')
       (\<lambda>ct. Inr (opt_prop (opt_index0 (opt_prop ct ''parts'')) ''text''))"

text \<open>The condition of line 64, \<open>candidate && candidate.content?.parts?.[0]?.text\<close>:
  the value of \<open>a && b\<close> is \<open>a\<close> when \<open>a\<close> counts as false, and \<open>b\<close> otherwise.\<close>

definition text_guard :: "jv \<Rightarrow> js_error + jv" where
  "text_guard candidate = (if truthy candidate then candidate_text candidate else Inr candidate)"

text \<open>Line 65, \<open>candidate.content.parts[0].text\<close>, with no optional chaining.\<close>

definition candidate_text_strict :: "jv \<Rightarrow> js_error + jv" where
  "candidate_text_strict candidate =
     ebind (get candidate ''content'')
       (\<lambda>ct. ebind (get ct ''parts'') (\<lambda>ps. ebind (get0 ps) (\<lambda>p. get p ''text'')))"

text \<open>The callback of \<open>map\<close>, lines 71 to 74.\<close>

definition attribution_source :: "jv \<Rightarrow> js_error + jv" where
  "attribution_source attribution =
     ebind (get attribution ''web'')
       (\<lambda>web. Inr (JObj [(''uri'', opt_prop web ''uri''), (''title'', opt_prop web ''title'')]))"

text \<open>The callback of \<open>filter\<close>, line 75: \<open>source.uri && source.title\<close>.\<close>

definition source_kept :: "jv \<Rightarrow> bool" where
  "source_kept source =
     truthy (if truthy (js_prop source ''uri'') then js_prop source ''title''
             else js_prop source ''uri'')"

text \<open>Lines 68 to 76. Calling \<open>map\<close> on a value that is not an array throws.\<close>

definition extract_sources :: "jv \<Rightarrow> js_error + jv list" where
  "extract_sources candidate =
     ebind (get candidate ''groundingMetadata'') (\<lambda>groundingMetadata.
       if truthy groundingMetadata then
         ebind (get groundingMetadata ''groundingAttributions'') (\<lambda>attributions.
           if truthy attributions then
             (case attributions of
                JArr xs \<Rightarrow>
                  ebind (map_throwing attribution_source xs) (\<lambda>ys. Inr (filter source_kept ys))
              | other \<Rightarrow> Inl (TypeError ''map''))
           else Inr [])
       else Inr [])"

text \<open>Lines 60 to 77: the pair \<open>(botText, sources)\<close> that line 80 sends.\<close>

definition normalize_response :: "jv \<Rightarrow> js_error + (jv \<times> jv list)" where
  "normalize_response resp =
     ebind (first_candidate resp) (\<lambda>candidate.
     ebind (text_guard candidate) (\<lambda>guard.
       if truthy guard then
         ebind (candidate_text_strict candidate) (\<lambda>botText.
         ebind (extract_sources candidate) (\<lambda>sources. Inr (botText, sources)))
       else Inr (JStr placeholder_text, [])))"

subsection \<open>The route's handler (lines 41 to 86)\<close>

definition invalid_input_response :: http_response where
  "invalid_input_response =
     \<lparr>status = 400, body = JObj [(''error'', JStr ''Invalid chat history provided.'')]\<rparr>"

definition upstream_failure_response :: http_response where
  "upstream_failure_response =
     \<lparr>status = 500, body = JObj [(''error'', JStr ''Failed to communicate with the AI service.'')]\<rparr>"

text \<open>\<open>res.json(x)\<close> sends \<open>x\<close> with the status 200 unless \<open>res.status\<close> set another.\<close>

definition success_response :: "jv \<Rightarrow> jv list \<Rightarrow> http_response" where
  "success_response botText sources =
     \<lparr>status = 200, body = JObj [(''text'', botText), (''sources'', JArr sources)]\<rparr>"

definition provider_request :: "jv \<Rightarrow> generate_request" where
  "provider_request chatHistory =
     \<lparr>model = MODEL_NAME, contents = chatHistory,
      tools = JArr [JObj [(''googleSearch'', JObj [])]],
      systemInstruction = SYSTEM_PROMPT\<rparr>"

text \<open>
  The handler, given the parsed request body. Destructuring \<open>req.body\<close> is outside the
  \<open>try\<close>: an exception there leaves the handler (\<open>Inl\<close>). Everything the \<open>try\<close>
  block throws, the provider call or the normalisation, reaches the one \<open>catch\<close>.
\<close>

definition chat_handler :: "provider \<Rightarrow> jv \<Rightarrow> js_error + served" where
  "chat_handler generateContent req_body =
     ebind (get req_body ''chatHistory'') (\<lambda>chatHistory.
       if \<not> truthy chatHistory \<or> \<not> isArray chatHistory then
         Inr \<lparr>response = invalid_input_response, provider_calls = [], console = []\<rparr>
       else
         (let request = provider_request chatHistory in
          case ebind (generateContent request) normalize_response of
            Inr (botText, sources) \<Rightarrow>
              Inr \<lparr>response = success_response botText sources,
                   provider_calls = [request], console = []\<rparr>
          | Inl error \<Rightarrow>
              Inr \<lparr>response = upstream_failure_response,
                   provider_calls = [request],
                   console = [(''Gemini API Error:'', error)]\<rparr>))"

subsection \<open>The application: middleware and routing\<close>

text \<open>
  The middleware runs in the order it was installed: \<open>cors()\<close> answers a preflight
  (\<open>OPTIONS\<close>) itself; \<open>express.json()\<close> parses the body (the request below carries the
  parsed value); \<open>express.static\<close> answers \<open>GET\<close> and \<open>HEAD\<close> for a file it finds
  (\<open>static_file\<close> says which paths those are) and passes everything else on. The only
  route is \<open>app.post('/api/chat', ...)\<close>. Express matches a route's path without regard to
  the case of letters and with an optional closing slash.
\<close>

datatype http_method = GET | HEAD | POST | PUT | DELETE | PATCH | OPTIONS

record http_request =
  http_method :: http_method
  path :: string
  parsed_body :: jv

datatype handled =
    Preflight
  | StaticFile string
  | ChatRoute "js_error + served"
  | NotFound

definition lower_char :: "char \<Rightarrow> char" where
  "lower_char x =
     (if CHR ''A'' \<le> x \<and> x \<le> CHR ''Z''
      then (case x of Char b0 b1 b2 b3 b4 b5 b6 b7 \<Rightarrow> Char b0 b1 b2 b3 b4 True b6 b7)
      else x)"

definition route_matches :: "string \<Rightarrow> string \<Rightarrow> bool" where
  "route_matches pattern p =
     (map lower_char p = map lower_char pattern \<or>
      map lower_char p = map lower_char pattern @ ''/'')"

definition app :: "(string \<Rightarrow> bool) \<Rightarrow> provider \<Rightarrow> http_request \<Rightarrow> handled" where
  "app static_file generateContent req =
     (if http_method req = OPTIONS then Preflight
      else if (http_method req = GET \<or> http_method req = HEAD) \<and> static_file (path req)
        then StaticFile (path req)
      else if http_method req = POST \<and> route_matches ''/api/chat'' (path req)
        then ChatRoute (chat_handler generateContent (parsed_body req))
      else NotFound)"


section \<open>The client (script.js)\<close>

subsection \<open>Configuration and the network\<close>

definition CHAT_API_ENDPOINT :: string where
  "CHAT_API_ENDPOINT = ''http://localhost:3000/api/chat''"

definition MAX_RETRIES :: nat where
  "MAX_RETRIES = 5"

text \<open>The second argument of \<open>fetch\<close>. The body is the value given to
  \<open>JSON.stringify\<close>; the text it is turned into is not modelled.\<close>

record fetch_options =
  fetch_method :: string
  fetch_headers :: "(string \<times> string) list"
  fetch_body :: jv

text \<open>A response as the wrapper sees it: its status, and what \<open>response.json()\<close> gives,
  the parsed body or the error of the parser.\<close>

record fetch_response =
  resp_status :: nat
  resp_json :: "js_error + jv"

text \<open>\<open>response.ok\<close>: the status is in the range 200 to 299.\<close>

definition resp_ok :: "fetch_response \<Rightarrow> bool" where
  "resp_ok r = (200 \<le> resp_status r \<and> resp_status r \<le> 299)"

datatype fetch_outcome = Rejected js_error | Resolved fetch_response

text \<open>The network is outside the program: it decides the outcome of the \<open>k\<close>-th call of
  \<open>fetch\<close> (counted from 0 since the page was loaded).\<close>

type_synonym network = "nat \<Rightarrow> string \<Rightarrow> fetch_options \<Rightarrow> fetch_outcome"

text \<open>What the client does to the outside, in order: calls of \<open>fetch\<close>, waits of
  \<open>setTimeout\<close> (in milliseconds) and lines of \<open>console.error\<close>.\<close>

datatype event =
    Fetch string fetch_options
  | Timeout nat
  | ConsoleError string js_error

fun is_fetch :: "event \<Rightarrow> bool" where
  "is_fetch (Fetch u opts) = True"
| "is_fetch ev = False"

fun timeout_ms :: "event \<Rightarrow> nat" where
  "timeout_ms (Timeout d) = d"
| "timeout_ms ev = 0"

definition fetch_count :: "event list \<Rightarrow> nat" where
  "fetch_count evs = length (filter is_fetch evs)"

definition waited_ms :: "event list \<Rightarrow> nat" where
  "waited_ms evs = sum_list (map timeout_ms evs)"

text \<open>The requests sent, in order: the options of each call of \<open>fetch\<close>.\<close>

fun requests :: "event list \<Rightarrow> fetch_options list" where
  "requests [] = []"
| "requests (Fetch u opts # evs) = opts # requests evs"
| "requests (ev # evs) = requests evs"

subsection \<open>The retry wrapper (lines 13 to 28)\<close>

text \<open>The \<open>try\<close> block, given the outcome of \<open>fetch\<close>: its value, or what it throws.
  \<open>return await response.json()\<close> is inside the block, so a rejection of
  \<open>response.json()\<close> is thrown there too.\<close>

definition attempt :: "fetch_outcome \<Rightarrow> js_error + jv" where
  "attempt outcome =
     (case outcome of
        Rejected e \<Rightarrow> Inl e
      | Resolved r \<Rightarrow> if \<not> resp_ok r then Inl (HttpError (resp_status r)) else resp_json r)"

function fetchWithRetry ::
  "network \<Rightarrow> string \<Rightarrow> fetch_options \<Rightarrow> nat \<Rightarrow> event list \<Rightarrow> (js_error + jv) \<times> event list"
where
  "fetchWithRetry net u opts retries evs =
     (case attempt (net (fetch_count evs) u opts) of
        Inr v \<Rightarrow> (Inr v, evs @ [Fetch u opts])
      | Inl error \<Rightarrow>
          if retries < MAX_RETRIES then
            fetchWithRetry net u opts (retries + 1)
              (evs @ [Fetch u opts, Timeout (2 ^ retries * 1000)])
          else (Inl error, evs @ [Fetch u opts]))"
  by pat_completeness auto
termination
  by (relation "measure (\<lambda>(net, u, opts, retries, evs). MAX_RETRIES - retries)")
     (auto simp: MAX_RETRIES_def)

declare fetchWithRetry.simps [simp del]

subsection \<open>The page\<close>

text \<open>
  A bubble of the chat window: the value assigned to \<open>innerHTML\<close>, the side it is on, and
  for each link of the source list the two values its text is built from
  (\<open>s.uri\<close>, \<open>s.title\<close>). No link means no source list.
\<close>

record message =
  bubble :: jv
  from_user :: bool
  links :: "(jv \<times> jv) list"

text \<open>The state of the page: the global \<open>chatHistory\<close>, the elements the script reads
  and writes (they are taken to exist), and what it has done to the outside.\<close>

record client =
  chatHistory :: "jv list"
  input_value :: string
  input_disabled :: bool
  button_disabled :: bool
  send_text_hidden :: bool
  spinner_hidden :: bool
  input_focused :: bool
  chat_window :: "message list"
  events :: "event list"

text \<open>
  The surroundings of a run: the network, and the outcome of \<open>v > 0\<close> for a string or an
  array \<open>v\<close>, which JavaScript decides by converting \<open>v\<close> to a floating-point number.
\<close>

record world =
  the_network :: network
  converts_positive :: "jv \<Rightarrow> bool"

subsection \<open>displayMessage (lines 33 to 56)\<close>

definition replace_newlines :: "string \<Rightarrow> string" where
  "replace_newlines s = concat (map (\<lambda>x. if x = CHR 0x0A then ''<br>'' else [x]) s)"

text \<open>\<open>text.replace(/\n/g, '<br>')\<close>: only a string has the method.\<close>

definition text_replace :: "jv \<Rightarrow> js_error + jv" where
  "text_replace t =
     (case t of JStr s \<Rightarrow> Inr (JStr (replace_newlines s)) | other \<Rightarrow> Inl (TypeError ''replace''))"

text \<open>\<open>sources.length\<close>\<close>

fun js_length :: "jv \<Rightarrow> js_error + jv" where
  "js_length JUndefined = Inl (TypeError ''length'')"
| "js_length JNull = Inl (TypeError ''length'')"
| "js_length (JArr xs) = Inr (JNum (of_nat (length xs)))"
| "js_length (JStr s) = Inr (JNum (of_nat (length s)))"
| "js_length (JObj kvs) = Inr (js_prop (JObj kvs) ''length'')"
| "js_length v = Inr JUndefined"

text \<open>\<open>v > 0\<close>: \<open>undefined\<close> and a plain object convert to NaN, \<open>null\<close> to 0,
  \<open>true\<close> to 1.\<close>

definition gt_zero :: "(jv \<Rightarrow> bool) \<Rightarrow> jv \<Rightarrow> bool" where
  "gt_zero conv v =
     (case v of
        JUndefined \<Rightarrow> False
      | JNull \<Rightarrow> False
      | JBool b \<Rightarrow> b
      | JNum n \<Rightarrow> 0 < n
      | JObj kvs \<Rightarrow> False
      | other \<Rightarrow> conv v)"

text \<open>The callback of \<open>sources.map\<close> reads \<open>s.uri\<close> and \<open>s.title\<close>.\<close>

definition source_link :: "jv \<Rightarrow> js_error + (jv \<times> jv)" where
  "source_link s = ebind (get s ''uri'') (\<lambda>u. ebind (get s ''title'') (\<lambda>t. Inr (u, t)))"

text \<open>Lines 44 to 52.\<close>

definition source_links :: "(jv \<Rightarrow> bool) \<Rightarrow> jv \<Rightarrow> js_error + (jv \<times> jv) list" where
  "source_links conv sources =
     ebind (js_length sources) (\<lambda>n.
       if gt_zero conv n then
         (case sources of
            JArr xs \<Rightarrow> map_throwing source_link xs
          | other \<Rightarrow> Inl (TypeError ''map''))
       else Inr [])"

text \<open>The bubble is added to the chat window by the last statements, so a call that throws
  leaves the page as it was. The default \<open>sources = []\<close> stands in for \<open>undefined\<close>.\<close>

definition displayMessage ::
  "(jv \<Rightarrow> bool) \<Rightarrow> jv \<Rightarrow> bool \<Rightarrow> jv \<Rightarrow> client \<Rightarrow> js_error + client"
where
  "displayMessage conv text isUser sources_arg c =
     (let sources = (if sources_arg = JUndefined then JArr [] else sources_arg) in
      ebind (if isUser then Inr text else text_replace text) (\<lambda>html.
      ebind (source_links conv sources) (\<lambda>ls.
        Inr (c\<lparr>chat_window :=
                 chat_window c @ [\<lparr>bubble = html, from_user = isUser, links = ls\<rparr>]\<rparr>))))"

subsection \<open>sendMessage (lines 63 to 110)\<close>

text \<open>The white space and line terminators of JavaScript among the code units up to
  U+00FF: tab, line feed, vertical tab, form feed, carriage return, space and no-break
  space.\<close>

definition js_whitespace :: "char \<Rightarrow> bool" where
  "js_whitespace x =
     (x \<in> set [CHR 0x09, CHR 0x0A, CHR 0x0B, CHR 0x0C, CHR 0x0D, CHR 0x20, CHR 0xA0])"

text \<open>\<open>s.trim()\<close>\<close>

definition trim :: "string \<Rightarrow> string" where
  "trim s = rev (dropWhile js_whitespace (rev (dropWhile js_whitespace s)))"

definition turn :: "string \<Rightarrow> jv \<Rightarrow> jv" where
  "turn r t = JObj [(''role'', JStr r), (''parts'', JArr [JObj [(''text'', t)]])]"

definition chat_options :: "jv list \<Rightarrow> fetch_options" where
  "chat_options history =
     \<lparr>fetch_method = ''POST'',
      fetch_headers = [(''Content-Type'', ''application/json'')],
      fetch_body = JObj [(''chatHistory'', JArr history)]\<rparr>"

definition fallback_message :: string where
  "fallback_message =
     ''An error occurred while communicating with the server. Please check if the Node.js server is running (http://localhost:3000).''"

text \<open>The \<open>try\<close> block, lines 83 to 96: the page after it, and what it threw, if
  anything. Destructuring \<open>result\<close> throws on \<open>null\<close>.\<close>

definition try_block :: "world \<Rightarrow> client \<Rightarrow> js_error option \<times> client" where
  "try_block w c =
     (case fetchWithRetry (the_network w) CHAT_API_ENDPOINT (chat_options (chatHistory c)) 0 (events c) of
        (Inl e, evs) \<Rightarrow> (Some e, c\<lparr>events := evs\<rparr>)
      | (Inr result, evs) \<Rightarrow>
          (case ebind (get result ''text'') (\<lambda>botText.
                ebind (get result ''sources'') (\<lambda>sources. Inr (botText, sources))) of
             Inl e \<Rightarrow> (Some e, c\<lparr>events := evs\<rparr>)
           | Inr (botText, sources) \<Rightarrow>
               (let c1 = c\<lparr>events := evs, chatHistory := chatHistory c @ [turn ''model'' botText]\<rparr>
                in case displayMessage (converts_positive w) botText False sources c1 of
                     Inl e \<Rightarrow> (Some e, c1)
                   | Inr c2 \<Rightarrow> (None, c2))))"

text \<open>The \<open>catch\<close> block, lines 99 to 101.\<close>

definition catch_block :: "world \<Rightarrow> js_error \<Rightarrow> client \<Rightarrow> js_error + client" where
  "catch_block w error c =
     displayMessage (converts_positive w) (JStr fallback_message) False JUndefined
       (c\<lparr>events := events c @ [ConsoleError ''Error communicating with Node.js server:'' error]\<rparr>)"

text \<open>The \<open>finally\<close> block, lines 104 to 108.\<close>

definition finally_block :: "client \<Rightarrow> client" where
  "finally_block c =
     c\<lparr>input_disabled := False, button_disabled := False, send_text_hidden := False,
       spinner_hidden := True, input_focused := True\<rparr>"

text \<open>
  One call of \<open>sendMessage\<close> that runs alone, to its end: the page after it, and the
  exception that left the function, if any. What happens when another call starts while
  this one waits for the network is in the subsection on calls that overlap.
\<close>

definition sendMessage :: "world \<Rightarrow> client \<Rightarrow> js_error option \<times> client" where
  "sendMessage w c =
     (let userQuery = trim (input_value c) in
      if userQuery = [] then (None, c)
      else
        (case displayMessage (converts_positive w) (JStr userQuery) True JUndefined c of
           Inl e \<Rightarrow> (Some e, c)
         | Inr c1 \<Rightarrow>
             (let c2 = c1\<lparr>input_value := [], input_disabled := True, button_disabled := True,
                          send_text_hidden := True, spinner_hidden := False\<rparr>;
                  c3 = c2\<lparr>chatHistory := chatHistory c2 @ [turn ''user'' (JStr userQuery)]\<rparr>
              in case try_block w c3 of
                   (None, c4) \<Rightarrow> (None, finally_block c4)
                 | (Some error, c4) \<Rightarrow>
                     (case catch_block w error c4 of
                        Inl e \<Rightarrow> (Some e, finally_block c4)
                      | Inr c5 \<Rightarrow> (None, finally_block c5)))))"

subsection \<open>Sequences of submissions\<close>

text \<open>A submission that runs alone: the input field holds \<open>q\<close>, \<open>sendMessage\<close> is
  called, and nothing else happens on the page until the call has ended.\<close>

definition submit :: "world \<Rightarrow> string \<Rightarrow> client \<Rightarrow> client" where
  "submit w q c = snd (sendMessage w (c\<lparr>input_value := q\<rparr>))"

text \<open>Submissions in turn: each call has ended when the next one starts. These are the
  runs of the page in which no two calls overlap (\<open>turn_by_turn\<close> below); the others are
  runs of \<open>run\<close>.\<close>

fun submit_all :: "world \<Rightarrow> string list \<Rightarrow> client \<Rightarrow> client" where
  "submit_all w [] c = c"
| "submit_all w (q # qs) c = submit_all w qs (submit w q c)"

text \<open>The result of the wrapper's call that submitting \<open>q\<close> on the page \<open>c\<close> makes.\<close>

definition round_trip :: "world \<Rightarrow> string \<Rightarrow> client \<Rightarrow> js_error + jv" where
  "round_trip w q c =
     fst (fetchWithRetry (the_network w) CHAT_API_ENDPOINT
            (chat_options (chatHistory c @ [turn ''user'' (JStr (trim q))])) 0 (events c))"

text \<open>A round trip succeeds when the wrapper returns a body and the body is not
  \<open>null\<close>, which line 90 cannot destructure.\<close>

definition round_trip_succeeds :: "world \<Rightarrow> string \<Rightarrow> client \<Rightarrow> bool" where
  "round_trip_succeeds w q c =
     (case round_trip w q c of Inl e \<Rightarrow> False | Inr result \<Rightarrow> \<not> nullish result)"

fun all_succeed :: "world \<Rightarrow> string list \<Rightarrow> client \<Rightarrow> bool" where
  "all_succeed w [] c = True"
| "all_succeed w (q # qs) c =
     (trim q \<noteq> [] \<and> round_trip_succeeds w q c \<and> all_succeed w qs (submit w q c))"

definition role_of :: "jv \<Rightarrow> jv" where
  "role_of t = js_prop t ''role''"

text \<open>Roles that alternate, starting with \<open>user\<close> when the flag is set.\<close>

fun alternating :: "bool \<Rightarrow> jv list \<Rightarrow> bool" where
  "alternating u [] = True"
| "alternating u (t # ts) =
     (role_of t = JStr (if u then ''user'' else ''model'') \<and> alternating (\<not> u) ts)"


subsection \<open>Calls that overlap\<close>

text \<open>
  \<open>sendMessage\<close> is an \<open>async\<close> function: a call runs up to the \<open>await\<close> of line 84
  and is resumed when the wrapper has returned or thrown. The wrapper is suspended at
  \<open>await fetch\<close> (line 15, taken together with the \<open>await\<close> of \<open>response.json()\<close>,
  line 19) and at the \<open>await\<close> of its timer (line 23). While a call is suspended the page
  handles other events, a second call of \<open>sendMessage\<close> among them.
\<close>

text \<open>Lines 64 to 80, the part of a call before its \<open>await\<close>: the page when the call
  is suspended, or \<open>None\<close> when the call has ended already (it returned at line 69, or
  line 72 threw) and left the page as it was.\<close>

definition before_await :: "world \<Rightarrow> client \<Rightarrow> client option" where
  "before_await w c =
     (let userQuery = trim (input_value c) in
      if userQuery = [] then None
      else
        (case displayMessage (converts_positive w) (JStr userQuery) True JUndefined c of
           Inl e \<Rightarrow> None
         | Inr c1 \<Rightarrow>
             (let c2 = c1\<lparr>input_value := [], input_disabled := True, button_disabled := True,
                          send_text_hidden := True, spinner_hidden := False\<rparr>
              in Some (c2\<lparr>chatHistory := chatHistory c2 @ [turn ''user'' (JStr userQuery)]\<rparr>))))"

text \<open>Lines 90 to 96, the rest of the \<open>try\<close> block once the wrapper has returned
  \<open>result\<close> or thrown, on the page as it then is.\<close>

definition rest_of_try :: "world \<Rightarrow> js_error + jv \<Rightarrow> client \<Rightarrow> js_error option \<times> client" where
  "rest_of_try w outcome c =
     (case outcome of
        Inl e \<Rightarrow> (Some e, c)
      | Inr result \<Rightarrow>
          (case ebind (get result ''text'') (\<lambda>botText.
                ebind (get result ''sources'') (\<lambda>sources. Inr (botText, sources))) of
             Inl e \<Rightarrow> (Some e, c)
           | Inr (botText, sources) \<Rightarrow>
               (let c1 = c\<lparr>chatHistory := chatHistory c @ [turn ''model'' botText]\<rparr>
                in case displayMessage (converts_positive w) botText False sources c1 of
                     Inl e \<Rightarrow> (Some e, c1)
                   | Inr c2 \<Rightarrow> (None, c2))))"

text \<open>Lines 90 to 109: the call from its resumption to its end.\<close>

definition after_await :: "world \<Rightarrow> js_error + jv \<Rightarrow> client \<Rightarrow> js_error option \<times> client" where
  "after_await w outcome c =
     (case rest_of_try w outcome c of
        (None, c4) \<Rightarrow> (None, finally_block c4)
      | (Some error, c4) \<Rightarrow>
          (case catch_block w error c4 of
             Inl e \<Rightarrow> (Some e, finally_block c4)
           | Inr c5 \<Rightarrow> (None, finally_block c5)))"

text \<open>
  A call of \<open>sendMessage\<close> that has started: its wrapper waits for the \<open>fetch\<close> it
  issued (the number of that \<open>fetch\<close> among all of them, the arguments and the counter
  \<open>retries\<close>), or for its timer, or the call has ended.
\<close>

datatype call_state =
    AwaitingFetch nat string fetch_options nat
  | AwaitingTimer string fetch_options nat
  | Settled

text \<open>The page with its calls, and the number of quick-action timers (line 217) that have
  not fired yet.\<close>

record browser =
  page :: client
  calls :: "call_state list"
  quick_action_timers :: nat

text \<open>
  What happens next on the page: \<open>sendMessage\<close> is called with the input holding a
  text; a quick-action button with a label is clicked (lines 201 to 219); the timer of a
  click fires (line 218); Enter is pressed in the input (lines 124 to 128); the
  \<open>fetch\<close> of a call settles; the timer of a call fires.
\<close>

datatype action =
    Submit string
  | QuickActionClick string
  | QuickActionFires
  | PressEnter
  | FetchSettles nat
  | TimerFires nat

text \<open>A call of \<open>sendMessage\<close> on the page as it is: it runs to its \<open>await\<close>, where the
  wrapper has issued its first \<open>fetch\<close>. Nothing in the function looks at the calls
  that have not ended.\<close>

definition call_sendMessage :: "world \<Rightarrow> browser \<Rightarrow> browser" where
  "call_sendMessage w b =
     (case before_await w (page b) of
        None \<Rightarrow> b
      | Some c \<Rightarrow>
          b\<lparr>page := c\<lparr>events := events c @ [Fetch CHAT_API_ENDPOINT (chat_options (chatHistory c))]\<rparr>,
            calls := calls b @
              [AwaitingFetch (fetch_count (events c)) CHAT_API_ENDPOINT
                 (chat_options (chatHistory c)) 0]\<rparr>)"

text \<open>Lines 201 to 219: the trimmed label goes into the input, which gets the focus
  unless it is disabled, and a timer is set that will call \<open>sendMessage\<close>. The flags
  \<open>disabled\<close> are not looked at.\<close>

definition quick_action_click :: "string \<Rightarrow> browser \<Rightarrow> browser" where
  "quick_action_click label b =
     (if trim label = [] then b
      else b\<lparr>page := (page b)\<lparr>input_value := trim label,
                              input_focused := (input_focused (page b) \<or> \<not> input_disabled (page b))\<rparr>,
             quick_action_timers := Suc (quick_action_timers b)\<rparr>)"

definition quick_action_fires :: "world \<Rightarrow> browser \<Rightarrow> browser" where
  "quick_action_fires w b =
     (if quick_action_timers b = 0 then b
      else call_sendMessage w (b\<lparr>quick_action_timers := quick_action_timers b - 1\<rparr>))"

text \<open>Lines 124 to 128: Enter calls \<open>sendMessage\<close> only while the send button is not
  disabled.\<close>

definition press_enter :: "world \<Rightarrow> browser \<Rightarrow> browser" where
  "press_enter w b = (if \<not> button_disabled (page b) then call_sendMessage w b else b)"

text \<open>Lines 15 to 27 for the call \<open>i\<close>, whose \<open>fetch\<close> settles: the wrapper returns
  and the call runs to its end, or the wrapper sets its timer, or the wrapper throws and
  the call runs to its end. The call goes on with the page as it is by then. An exception
  that leaves the call is lost: nothing awaits the promise of \<open>sendMessage\<close>.\<close>

definition settle_fetch :: "world \<Rightarrow> nat \<Rightarrow> browser \<Rightarrow> browser" where
  "settle_fetch w i b =
     (if i < length (calls b) then
        (case calls b ! i of
           AwaitingFetch n u opts retries \<Rightarrow>
             (case attempt (the_network w n u opts) of
                Inr v \<Rightarrow>
                  b\<lparr>page := snd (after_await w (Inr v) (page b)), calls := (calls b)[i := Settled]\<rparr>
              | Inl error \<Rightarrow>
                  if retries < MAX_RETRIES then
                    b\<lparr>page := (page b)\<lparr>events := events (page b) @ [Timeout (2 ^ retries * 1000)]\<rparr>,
                      calls := (calls b)[i := AwaitingTimer u opts retries]\<rparr>
                  else
                    b\<lparr>page := snd (after_await w (Inl error) (page b)),
                      calls := (calls b)[i := Settled]\<rparr>)
         | other \<Rightarrow> b)
      else b)"

text \<open>Line 24 for the call \<open>i\<close>, whose timer fires: the wrapper calls itself with the
  counter raised and issues the next \<open>fetch\<close>.\<close>

definition fire_timer :: "nat \<Rightarrow> browser \<Rightarrow> browser" where
  "fire_timer i b =
     (if i < length (calls b) then
        (case calls b ! i of
           AwaitingTimer u opts retries \<Rightarrow>
             b\<lparr>page := (page b)\<lparr>events := events (page b) @ [Fetch u opts]\<rparr>,
               calls := (calls b)[i := AwaitingFetch (fetch_count (events (page b))) u opts (retries + 1)]\<rparr>
         | other \<Rightarrow> b)
      else b)"

fun step :: "world \<Rightarrow> action \<Rightarrow> browser \<Rightarrow> browser" where
  "step w (Submit q) b = call_sendMessage w (b\<lparr>page := (page b)\<lparr>input_value := q\<rparr>\<rparr>)"
| "step w (QuickActionClick label) b = quick_action_click label b"
| "step w QuickActionFires b = quick_action_fires w b"
| "step w PressEnter b = press_enter w b"
| "step w (FetchSettles i) b = settle_fetch w i b"
| "step w (TimerFires i) b = fire_timer i b"

fun run :: "world \<Rightarrow> action list \<Rightarrow> browser \<Rightarrow> browser" where
  "run w [] b = b"
| "run w (a # as) b = run w as (step w a b)"

text \<open>The events that take the call \<open>i\<close> to its end when nothing else happens in
  between: its \<open>fetch\<close> settles and, while the attempts fail and the counter allows,
  its timer fires.\<close>

function solo :: "network \<Rightarrow> nat \<Rightarrow> string \<Rightarrow> fetch_options \<Rightarrow> nat \<Rightarrow> nat \<Rightarrow> action list" where
  "solo nw n u opts retries i =
     (case attempt (nw n u opts) of
        Inr v \<Rightarrow> [FetchSettles i]
      | Inl error \<Rightarrow>
          if retries < MAX_RETRIES
          then FetchSettles i # TimerFires i # solo nw (n + 1) u opts (retries + 1) i
          else [FetchSettles i])"
  by pat_completeness auto
termination
  by (relation "measure (\<lambda>(nw, n, u, opts, retries, i). MAX_RETRIES - retries)")
     (auto simp: MAX_RETRIES_def)

declare solo.simps [simp del]

text \<open>The run in which the texts are submitted in turn, each call taken to its end before
  the next text is submitted.\<close>

fun turn_by_turn :: "world \<Rightarrow> string list \<Rightarrow> browser \<Rightarrow> action list" where
  "turn_by_turn w [] b = []"
| "turn_by_turn w (q # qs) b =
     (let acts = Submit q #
            (if trim q = [] then []
             else solo (the_network w) (fetch_count (events (page b))) CHAT_API_ENDPOINT
                    (chat_options (chatHistory (page b) @ [turn ''user'' (JStr (trim q))])) 0
                    (length (calls b)))
      in acts @ turn_by_turn w qs (run w acts b))"


section \<open>Notions the properties are stated with\<close>

subsection \<open>The proxy\<close>

text \<open>
  The text of the first content part of the first candidate: \<open>undefined\<close> when a link of
  the chain is missing. It is present when it counts as true (line 64), which for a string
  means that it is not empty.
\<close>

definition first_part_text :: "jv \<Rightarrow> jv" where
  "first_part_text resp =
     opt_prop (opt_index0 (opt_prop (opt_prop (opt_index0 (opt_prop resp ''candidates''))
       ''content'') ''parts'')) ''text''"

definition selected_text :: "jv \<Rightarrow> jv" where
  "selected_text resp =
     (if truthy (first_part_text resp) then first_part_text resp else JStr placeholder_text)"

text \<open>The grounding attributions of the first candidate, \<open>undefined\<close> when the
  candidate has no grounding metadata.\<close>

definition grounding_attributions :: "jv \<Rightarrow> jv" where
  "grounding_attributions resp =
     opt_prop (opt_prop (opt_index0 (opt_prop resp ''candidates'')) ''groundingMetadata'')
       ''groundingAttributions''"

definition attribution_uri :: "jv \<Rightarrow> jv" where
  "attribution_uri a = opt_prop (opt_prop a ''web'') ''uri''"

definition attribution_title :: "jv \<Rightarrow> jv" where
  "attribution_title a = opt_prop (opt_prop a ''web'') ''title''"

text \<open>An attribution is complete when it has both fields, neither of them empty.\<close>

definition complete_attribution :: "jv \<Rightarrow> bool" where
  "complete_attribution a = (truthy (attribution_uri a) \<and> truthy (attribution_title a))"

definition as_source :: "jv \<Rightarrow> jv" where
  "as_source a = JObj [(''uri'', attribution_uri a), (''title'', attribution_title a)]"

text \<open>The complete attributions of a response, each as \<open>{uri, title}\<close>, in their order.\<close>

definition complete_sources :: "jv \<Rightarrow> jv list" where
  "complete_sources resp =
     (case grounding_attributions resp of
        JArr xs \<Rightarrow> map as_source (filter complete_attribution xs)
      | other \<Rightarrow> [])"

text \<open>The attributions are absent, or a sequence with no \<open>null\<close> entry.\<close>

definition well_formed_attributions :: "jv \<Rightarrow> bool" where
  "well_formed_attributions resp =
     (case grounding_attributions resp of
        JArr xs \<Rightarrow> list_all (\<lambda>a. \<not> nullish a) xs
      | other \<Rightarrow> \<not> truthy other)"

subsection \<open>The client\<close>

text \<open>An attempt that fails by a transport error or by a status outside 200 to 299, and
  the error such an attempt throws.\<close>

definition transport_or_status_failure :: "fetch_outcome \<Rightarrow> bool" where
  "transport_or_status_failure outcome =
     (case outcome of Rejected e \<Rightarrow> True | Resolved r \<Rightarrow> \<not> resp_ok r)"

definition failure_error :: "fetch_outcome \<Rightarrow> js_error" where
  "failure_error outcome =
     (case outcome of Rejected e \<Rightarrow> e | Resolved r \<Rightarrow> HttpError (resp_status r))"

text \<open>Six calls of \<open>fetch\<close> with waits of 1, 2, 4, 8 and 16 seconds between them.\<close>

definition exhausted_trace :: "string \<Rightarrow> fetch_options \<Rightarrow> event list" where
  "exhausted_trace u opts =
     [Fetch u opts, Timeout 1000, Fetch u opts, Timeout 2000, Fetch u opts, Timeout 4000,
      Fetch u opts, Timeout 8000, Fetch u opts, Timeout 16000, Fetch u opts]"

text \<open>The calls and waits of a wrapper whose counter is \<open>k\<close> and whose next \<open>n + 1\<close>
  attempts fail.\<close>

fun backoff_trace :: "string \<Rightarrow> fetch_options \<Rightarrow> nat \<Rightarrow> nat \<Rightarrow> event list" where
  "backoff_trace u opts k 0 = [Fetch u opts]"
| "backoff_trace u opts k (Suc n) =
     Fetch u opts # Timeout (2 ^ k * 1000) # backoff_trace u opts (Suc k) n"

text \<open>The text of the answer that submitting \<open>q\<close> on the page \<open>c\<close> receives.\<close>

definition reply_text :: "world \<Rightarrow> string \<Rightarrow> client \<Rightarrow> jv" where
  "reply_text w q c =
     (case round_trip w q c of Inl e \<Rightarrow> JUndefined | Inr result \<Rightarrow> js_prop result ''text'')"

text \<open>The turns of a sequence of submissions, each with its answer.\<close>

fun exchanges :: "world \<Rightarrow> string list \<Rightarrow> client \<Rightarrow> jv list" where
  "exchanges w [] c = []"
| "exchanges w (q # qs) c =
     turn ''user'' (JStr (trim q)) # turn ''model'' (reply_text w q c) #
     exchanges w qs (submit w q c)"

section \<open>Concrete inputs\<close>

definition chat_body :: jv where
  "chat_body = JObj [(''chatHistory'', JArr [])]"

definition answer_with_text :: jv where
  "answer_with_text =
     JObj [(''candidates'', JArr [JObj [
        (''content'', JObj [(''parts'', JArr [JObj [(''text'', JStr ''Eat oats.'')]])])]])]"

definition answer_without_text :: jv where
  "answer_without_text =
     JObj [(''candidates'', JArr [JObj [
        (''content'', JObj [(''parts'', JArr [JObj []])]),
        (''groundingMetadata'', JObj [(''groundingAttributions'',
           JArr [JObj [(''web'', JObj [(''uri'', JStr ''https://example.org/oats''),
                                       (''title'', JStr ''Oats'')])]])])]])]"

definition answer_with_sources :: jv where
  "answer_with_sources =
     JObj [(''candidates'', JArr [JObj [
        (''content'', JObj [(''parts'', JArr [JObj [(''text'', JStr ''Eat oats.'')]])]),
        (''groundingMetadata'', JObj [(''groundingAttributions'',
           JArr [JObj [(''web'', JObj [(''uri'', JStr ''https://example.org/oats''),
                                       (''title'', JStr ''Oats'')])],
                 JObj [(''web'', JObj [(''uri'', JStr ''https://example.org/rye'')])]])])]])]"

definition provider_returning :: "jv \<Rightarrow> provider" where
  "provider_returning r request = Inr r"

definition provider_throwing :: "js_error \<Rightarrow> provider" where
  "provider_throwing e request = Inl e"

definition no_static_file :: "string \<Rightarrow> bool" where
  "no_static_file p = False"

definition proxy_answer :: jv where
  "proxy_answer = JObj [(''text'', JStr ''Eat oats.''), (''sources'', JArr [])]"

definition offline :: network where
  "offline k u opts = Rejected (TypeError ''Failed to fetch'')"

definition unavailable :: network where
  "unavailable k u opts =
     (if k < 5 then Resolved \<lparr>resp_status = 503, resp_json = Inr JNull\<rparr>
      else Rejected (TypeError ''Failed to fetch''))"

definition garbled_once :: network where
  "garbled_once k u opts =
     (if k = 0
      then Resolved \<lparr>resp_status = 200, resp_json = Inl (SyntaxError ''Unexpected token <'')\<rparr>
      else Resolved \<lparr>resp_status = 200, resp_json = Inr proxy_answer\<rparr>)"

definition garbled :: network where
  "garbled k u opts =
     Resolved \<lparr>resp_status = 200, resp_json = Inl (SyntaxError ''Unexpected token <'')\<rparr>"

definition answering :: network where
  "answering k u opts = Resolved \<lparr>resp_status = 200, resp_json = Inr proxy_answer\<rparr>"

definition down_then_up :: network where
  "down_then_up k u opts =
     (if k < 6 then Rejected (TypeError ''Failed to fetch'')
      else Resolved \<lparr>resp_status = 200, resp_json = Inr proxy_answer\<rparr>)"

definition never_positive :: "jv \<Rightarrow> bool" where
  "never_positive v = False"

definition offline_world :: world where
  "offline_world = \<lparr>the_network = offline, converts_positive = never_positive\<rparr>"

definition steady_world :: world where
  "steady_world = \<lparr>the_network = answering, converts_positive = never_positive\<rparr>"

definition recovering_world :: world where
  "recovering_world = \<lparr>the_network = down_then_up, converts_positive = never_positive\<rparr>"

definition fresh_page :: client where
  "fresh_page =
     \<lparr>chatHistory = [], input_value = [], input_disabled = False, button_disabled = True,
      send_text_hidden = False, spinner_hidden = True, input_focused = False,
      chat_window = [], events = []\<rparr>"

definition blank_input :: string where
  "blank_input = [CHR 0x20, CHR 0x09, CHR 0x0A, CHR 0xA0]"

text \<open>A response with a text whose grounding attributions hold a \<open>null\<close>.\<close>

definition answer_with_null_attribution :: jv where
  "answer_with_null_attribution =
     JObj [(''candidates'', JArr [JObj [
        (''content'', JObj [(''parts'', JArr [JObj [(''text'', JStr ''Eat oats.'')]])]),
        (''groundingMetadata'', JObj [(''groundingAttributions'', JArr [JNull])])]])]"

text \<open>Two quick-action buttons, labelled \<open>a\<close> and \<open>b\<close>, are clicked: the second while
  the request of the first is on its way. Both requests are then answered.\<close>

definition loaded_page :: browser where
  "loaded_page = \<lparr>page = fresh_page, calls = [], quick_action_timers = 0\<rparr>"

definition overlapping_run :: browser where
  "overlapping_run =
     run steady_world
       [QuickActionClick ''a'', QuickActionFires, QuickActionClick ''b'', QuickActionFires,
        FetchSettles 0, FetchSettles 1]
       loaded_page"


section \<open>Auxiliary facts\<close>

subsection \<open>Values\<close>

lemma ebind_simps [simp]:
  "ebind (Inl e) f = Inl e" "ebind (Inr v) f = f v"
  by (simp_all add: ebind_def)

lemma truthy_not_nullish: "truthy v \<Longrightarrow> \<not> nullish v"
  by (cases v) simp_all

lemma falsy_prop: "\<not> truthy v \<Longrightarrow> opt_prop v k = JUndefined"
  by (cases v) (simp_all add: opt_prop_def)

lemma opt_prop_undefined [simp]: "opt_prop JUndefined k = JUndefined"
  by (simp add: opt_prop_def)

lemma opt_index0_undefined [simp]: "opt_index0 JUndefined = JUndefined"
  by (simp add: opt_index0_def)

lemma truthy_opt_prop: "truthy (opt_prop v k) \<Longrightarrow> \<not> nullish v \<and> opt_prop v k = js_prop v k"
  by (cases "nullish v") (simp_all add: opt_prop_def)

lemma get_not_nullish [simp]: "\<not> nullish v \<Longrightarrow> get v k = Inr (js_prop v k)"
  by (simp add: get_def)

lemma get0_not_nullish [simp]: "\<not> nullish v \<Longrightarrow> get0 v = Inr (index0 v)"
  by (simp add: get0_def)

lemma map_throwing_total:
  "\<forall>x\<in>set xs. f x = Inr (g x) \<Longrightarrow> map_throwing f xs = Inr (map g xs)"
  by (induction xs) simp_all

lemmas chain_defs = first_part_text_def grounding_attributions_def opt_prop_def opt_index0_def

subsection \<open>Normalisation\<close>

lemma first_candidate_eq:
  "\<not> nullish resp \<Longrightarrow> first_candidate resp = Inr (opt_index0 (opt_prop resp ''candidates''))"
  by (simp add: first_candidate_def opt_prop_def)

text \<open>The condition of line 64 never throws, and holds exactly when the text is present.\<close>

lemma text_guard_truthy:
  "\<exists>g. text_guard cand = Inr g \<and>
     truthy g = truthy (opt_prop (opt_index0 (opt_prop (opt_prop cand ''content'') ''parts'')) ''text'')"
proof (cases "truthy cand")
  case True
  then have "\<not> nullish cand" by (rule truthy_not_nullish)
  with True show ?thesis
    by (simp add: text_guard_def candidate_text_def opt_prop_def)
next
  case False
  then have "opt_prop cand ''content'' = JUndefined" by (rule falsy_prop)
  with False show ?thesis by (simp add: text_guard_def)
qed

text \<open>Under that condition line 65 reads the same text without throwing.\<close>

lemma candidate_text_strict_eq:
  assumes "truthy (opt_prop (opt_index0 (opt_prop (opt_prop cand ''content'') ''parts'')) ''text'')"
  shows "candidate_text_strict cand =
     Inr (opt_prop (opt_index0 (opt_prop (opt_prop cand ''content'') ''parts'')) ''text'')"
proof -
  let ?ct = "opt_prop cand ''content''"
  let ?ps = "opt_prop ?ct ''parts''"
  let ?p = "opt_index0 ?ps"
  from assms have p: "\<not> nullish ?p" "opt_prop ?p ''text'' = js_prop ?p ''text''"
    using truthy_opt_prop by blast+
  have "?p \<noteq> JUndefined" using p(1) by auto
  then have ps: "\<not> nullish ?ps" "?p = index0 ?ps"
    by (auto simp: opt_index0_def split: if_splits)
  have "?ps \<noteq> JUndefined" using ps(1) by auto
  then have ct: "\<not> nullish ?ct" "?ps = js_prop ?ct ''parts''"
    by (auto simp: opt_prop_def split: if_splits)
  have "?ct \<noteq> JUndefined" using ct(1) by auto
  then have c: "\<not> nullish cand" "?ct = js_prop cand ''content''"
    by (auto simp: opt_prop_def split: if_splits)
  show ?thesis
    using p ps ct c by (simp add: candidate_text_strict_def)
qed

lemma normalize_response_eq:
  assumes "\<not> nullish resp"
  shows "normalize_response resp =
     (if truthy (first_part_text resp)
      then ebind (extract_sources (opt_index0 (opt_prop resp ''candidates'')))
             (\<lambda>sources. Inr (first_part_text resp, sources))
      else Inr (JStr placeholder_text, []))"
proof -
  let ?cand = "opt_index0 (opt_prop resp ''candidates'')"
  obtain g where g: "text_guard ?cand = Inr g" "truthy g = truthy (first_part_text resp)"
    using text_guard_truthy [of ?cand] by (auto simp: first_part_text_def)
  show ?thesis
  proof (cases "truthy (first_part_text resp)")
    case True
    then have "candidate_text_strict ?cand = Inr (first_part_text resp)"
      unfolding first_part_text_def by (rule candidate_text_strict_eq)
    with True g assms show ?thesis
      by (simp add: normalize_response_def first_candidate_eq)
  next
    case False
    with g assms show ?thesis
      by (simp add: normalize_response_def first_candidate_eq)
  qed
qed

subsection \<open>Sources\<close>

lemma attribution_source_eq: "\<not> nullish a \<Longrightarrow> attribution_source a = Inr (as_source a)"
  by (simp add: attribution_source_def as_source_def attribution_uri_def attribution_title_def
      opt_prop_def)

lemma source_kept_as_source: "source_kept (as_source a) = complete_attribution a"
  by (simp add: source_kept_def as_source_def complete_attribution_def)

lemma filter_kept_sources:
  "filter source_kept (map as_source xs) = map as_source (filter complete_attribution xs)"
  by (induction xs) (simp_all add: source_kept_as_source)

lemma extract_sources_absent:
  assumes "\<not> nullish cand"
    and "\<not> truthy (opt_prop (opt_prop cand ''groundingMetadata'') ''groundingAttributions'')"
  shows "extract_sources cand = Inr []"
proof (cases "truthy (js_prop cand ''groundingMetadata'')")
  case True
  then have "\<not> nullish (js_prop cand ''groundingMetadata'')" by (rule truthy_not_nullish)
  with assms True show ?thesis by (simp add: extract_sources_def opt_prop_def)
next
  case False
  with assms show ?thesis by (simp add: extract_sources_def)
qed

lemma extract_sources_array:
  assumes "opt_prop (opt_prop cand ''groundingMetadata'') ''groundingAttributions'' = JArr xs"
    and "\<forall>a\<in>set xs. \<not> nullish a"
  shows "extract_sources cand = Inr (map as_source (filter complete_attribution xs))"
proof -
  let ?gm = "opt_prop cand ''groundingMetadata''"
  have t: "truthy (opt_prop ?gm ''groundingAttributions'')" using assms(1) by simp
  then have gm: "\<not> nullish ?gm" "js_prop ?gm ''groundingAttributions'' = JArr xs"
    using truthy_opt_prop [OF t] assms(1) by simp_all
  have "?gm \<noteq> JUndefined" using gm(1) by auto
  then have c: "\<not> nullish cand" "?gm = js_prop cand ''groundingMetadata''"
    by (auto simp: opt_prop_def split: if_splits)
  have tg: "truthy (js_prop cand ''groundingMetadata'')"
  proof (rule ccontr)
    assume "\<not> truthy (js_prop cand ''groundingMetadata'')"
    then have "opt_prop (js_prop cand ''groundingMetadata'') ''groundingAttributions'' = JUndefined"
      by (rule falsy_prop)
    with assms(1) c(2) show False by simp
  qed
  have m: "map_throwing attribution_source xs = Inr (map as_source xs)"
    using assms(2) by (intro map_throwing_total) (simp add: attribution_source_eq)
  show ?thesis
    using c gm tg m by (simp add: extract_sources_def filter_kept_sources)
qed

lemma extract_sources_well_formed:
  assumes "\<not> nullish resp" "truthy (first_part_text resp)" "well_formed_attributions resp"
  shows "extract_sources (opt_index0 (opt_prop resp ''candidates'')) = Inr (complete_sources resp)"
proof -
  let ?cand = "opt_index0 (opt_prop resp ''candidates'')"
  have cand: "\<not> nullish ?cand"
  proof
    assume "nullish ?cand"
    then have "opt_prop ?cand ''content'' = JUndefined" by (simp add: opt_prop_def)
    then have "first_part_text resp = JUndefined" by (simp add: first_part_text_def)
    with assms(2) show False by simp
  qed
  show ?thesis
  proof (cases "grounding_attributions resp")
    case (JArr xs)
    with assms(3) have "\<forall>a\<in>set xs. \<not> nullish a"
      by (simp add: well_formed_attributions_def list_all_iff)
    with JArr show ?thesis
      using extract_sources_array [of ?cand xs]
      by (simp add: grounding_attributions_def complete_sources_def)
  qed (use assms(3) cand in \<open>simp_all add: well_formed_attributions_def complete_sources_def
        extract_sources_absent grounding_attributions_def\<close>)
qed

subsection \<open>The handler on a valid request\<close>

lemma chat_handler_valid:
  assumes "\<not> nullish req_body" "js_prop req_body ''chatHistory'' = JArr h"
  shows "chat_handler generateContent req_body =
     Inr (case ebind (generateContent (provider_request (JArr h))) normalize_response of
            Inr (botText, sources) \<Rightarrow>
              \<lparr>response = success_response botText sources,
               provider_calls = [provider_request (JArr h)], console = []\<rparr>
          | Inl error \<Rightarrow>
              \<lparr>response = upstream_failure_response,
               provider_calls = [provider_request (JArr h)],
               console = [(''Gemini API Error:'', error)]\<rparr>)"
  using assms by (simp add: chat_handler_def Let_def split: sum.splits prod.splits)

lemma selected_text_truthy: "truthy (selected_text resp)"
  by (simp add: selected_text_def placeholder_text_def)

lemma chat_body_valid:
  "\<not> nullish chat_body" "js_prop chat_body ''chatHistory'' = JArr []"
  by (simp_all add: chat_body_def)


subsection \<open>The retry wrapper\<close>

lemma fetch_count_simps [simp]:
  "fetch_count [] = 0"
  "fetch_count (Fetch u opts # evs) = Suc (fetch_count evs)"
  "fetch_count (Timeout d # evs) = fetch_count evs"
  "fetch_count (ConsoleError s e # evs) = fetch_count evs"
  "fetch_count (evs @ evs') = fetch_count evs + fetch_count evs'"
  by (simp_all add: fetch_count_def)

lemma fetchWithRetry_success:
  "attempt (net (fetch_count evs) u opts) = Inr v \<Longrightarrow>
   fetchWithRetry net u opts k evs = (Inr v, evs @ [Fetch u opts])"
  by (subst fetchWithRetry.simps) simp

lemma fetchWithRetry_failure:
  "attempt (net (fetch_count evs) u opts) = Inl e \<Longrightarrow>
   fetchWithRetry net u opts k evs =
     (if k < MAX_RETRIES
      then fetchWithRetry net u opts (k + 1) (evs @ [Fetch u opts, Timeout (2 ^ k * 1000)])
      else (Inl e, evs @ [Fetch u opts]))"
  by (subst fetchWithRetry.simps) simp

lemma requests_append [simp]: "requests (evs @ evs') = requests evs @ requests evs'"
  by (induction evs rule: requests.induct) simp_all

text \<open>Every attempt of one call of the wrapper sends the same request.\<close>

lemma fetchWithRetry_requests:
  "\<exists>n. requests (snd (fetchWithRetry net u opts k evs)) = requests evs @ replicate (Suc n) opts"
proof (induction net u opts k evs rule: fetchWithRetry.induct)
  case (1 net u opts retries evs)
  show ?case
  proof (cases "attempt (net (fetch_count evs) u opts)")
    case (Inr v)
    then have "requests (snd (fetchWithRetry net u opts retries evs)) =
        requests evs @ replicate (Suc 0) opts"
      by (simp add: fetchWithRetry_success)
    then show ?thesis ..
  next
    case (Inl e)
    show ?thesis
    proof (cases "retries < MAX_RETRIES")
      case True
      from "1" [OF Inl True] obtain n where
        "requests (snd (fetchWithRetry net u opts (retries + 1)
            (evs @ [Fetch u opts, Timeout (2 ^ retries * 1000)]))) =
         requests (evs @ [Fetch u opts, Timeout (2 ^ retries * 1000)]) @ replicate (Suc n) opts" ..
      then have "requests (snd (fetchWithRetry net u opts retries evs)) =
          requests evs @ replicate (Suc (Suc n)) opts"
        using Inl True by (simp add: fetchWithRetry_failure)
      then show ?thesis ..
    next
      case False
      then have "requests (snd (fetchWithRetry net u opts retries evs)) =
          requests evs @ replicate (Suc 0) opts"
        using Inl by (simp add: fetchWithRetry_failure)
      then show ?thesis ..
    qed
  qed
qed

lemma attempt_failure:
  "transport_or_status_failure outcome \<Longrightarrow> attempt outcome = Inl (failure_error outcome)"
  by (cases outcome) (simp_all add: transport_or_status_failure_def attempt_def failure_error_def)

text \<open>A wrapper whose counter is \<open>k\<close> and whose attempts all fail stops after
  \<open>MAX_RETRIES - k + 1\<close> of them, with the error of the last.\<close>

lemma fetchWithRetry_all_fail:
  assumes "k + n = MAX_RETRIES"
    and "\<And>i. i \<le> n \<Longrightarrow> attempt (net (fetch_count evs + i) u opts) = Inl (err i)"
  shows "fetchWithRetry net u opts k evs = (Inl (err n), evs @ backoff_trace u opts k n)"
  using assms
proof (induction n arbitrary: k evs err)
  case 0
  from "0.prems"(2) [of 0] have "attempt (net (fetch_count evs) u opts) = Inl (err 0)" by simp
  with "0.prems"(1) show ?case by (simp add: fetchWithRetry_failure)
next
  case (Suc n)
  let ?evs = "evs @ [Fetch u opts, Timeout (2 ^ k * 1000)]"
  from Suc.prems(2) [of 0] have a: "attempt (net (fetch_count evs) u opts) = Inl (err 0)" by simp
  have "fetchWithRetry net u opts k evs = fetchWithRetry net u opts (Suc k) ?evs"
    using a Suc.prems(1) by (simp add: fetchWithRetry_failure)
  also have "\<dots> = (Inl (err (Suc n)), ?evs @ backoff_trace u opts (Suc k) n)"
  proof (rule Suc.IH [where err = "\<lambda>i. err (Suc i)"])
    show "Suc k + n = MAX_RETRIES" using Suc.prems(1) by simp
  next
    fix i assume "i \<le> n"
    then show "attempt (net (fetch_count ?evs + i) u opts) = Inl (err (Suc i))"
      using Suc.prems(2) [of "Suc i"] by simp
  qed
  finally show ?case by simp
qed

lemma backoff_trace_5: "backoff_trace u opts 0 5 = exhausted_trace u opts"
proof -
  have five: "(5::nat) = Suc (Suc (Suc (Suc (Suc 0))))" by simp
  show ?thesis by (subst five) (simp add: exhausted_trace_def)
qed

subsection \<open>sendMessage\<close>

lemma source_links_empty [simp]: "source_links conv (JArr []) = Inr []"
  by (simp add: source_links_def gt_zero_def)

lemma displayMessage_user:
  "displayMessage conv (JStr s) True JUndefined c =
     Inr (c\<lparr>chat_window := chat_window c @ [\<lparr>bubble = JStr s, from_user = True, links = []\<rparr>]\<rparr>)"
  by (simp add: displayMessage_def)

lemma displayMessage_bot_string:
  "displayMessage conv (JStr s) False JUndefined c =
     Inr (c\<lparr>chat_window := chat_window c @
            [\<lparr>bubble = JStr (replace_newlines s), from_user = False, links = []\<rparr>]\<rparr>)"
  by (simp add: displayMessage_def text_replace_def)

lemma displayMessage_frame:
  "displayMessage conv t u s c = Inr c' \<Longrightarrow>
   chatHistory c' = chatHistory c \<and> events c' = events c"
  by (auto simp: displayMessage_def Let_def ebind_def split: sum.splits)

lemma replace_newlines_fallback: "replace_newlines fallback_message = fallback_message"
  by (simp add: replace_newlines_def fallback_message_def)

text \<open>What one call does to the history, whatever the network and the page do.\<close>

lemma sendMessage_history:
  "chatHistory (snd (sendMessage w c)) =
     (if trim (input_value c) = [] then chatHistory c
      else chatHistory c @ turn ''user'' (JStr (trim (input_value c))) #
        (case round_trip w (input_value c) c of
           Inl e \<Rightarrow> []
         | Inr result \<Rightarrow> if nullish result then [] else [turn ''model'' (js_prop result ''text'')]))"
  by (auto simp: sendMessage_def try_block_def catch_block_def finally_block_def round_trip_def
      displayMessage_user displayMessage_bot_string Let_def get_def
      split: prod.splits sum.splits option.splits dest: displayMessage_frame)

lemma sendMessage_requests:
  "trim (input_value c) \<noteq> [] \<Longrightarrow>
   requests (events (snd (sendMessage w c))) =
     requests (snd (fetchWithRetry (the_network w) CHAT_API_ENDPOINT
       (chat_options (chatHistory c @ [turn ''user'' (JStr (trim (input_value c)))])) 0 (events c)))"
  by (auto simp: sendMessage_def try_block_def catch_block_def finally_block_def
      displayMessage_user displayMessage_bot_string Let_def get_def
      split: prod.splits sum.splits option.splits dest: displayMessage_frame)

text \<open>The requests of a submission all carry the history before it with the new user
  turn at its end.\<close>

lemma submit_requests:
  assumes "trim q \<noteq> []"
  shows "\<exists>n. requests (events (submit w q c)) =
     requests (events c) @
     replicate (Suc n) (chat_options (chatHistory c @ [turn ''user'' (JStr (trim q))]))"
  using assms fetchWithRetry_requests [of "the_network w" CHAT_API_ENDPOINT
      "chat_options (chatHistory c @ [turn ''user'' (JStr (trim q))])" 0 "events c"]
  by (simp add: submit_def sendMessage_requests)

lemma sendMessage_keeps_history:
  "prefix (chatHistory c) (chatHistory (snd (sendMessage w c)))"
  by (simp add: sendMessage_history)

lemma round_trip_input [simp]: "round_trip w q (c\<lparr>input_value := s\<rparr>) = round_trip w q c"
  by (simp add: round_trip_def)

lemma submit_history:
  "chatHistory (submit w q c) =
     (if trim q = [] then chatHistory c
      else chatHistory c @ turn ''user'' (JStr (trim q)) #
        (case round_trip w q c of
           Inl e \<Rightarrow> []
         | Inr result \<Rightarrow> if nullish result then [] else [turn ''model'' (js_prop result ''text'')]))"
  by (simp add: submit_def sendMessage_history)

lemma submit_history_success:
  assumes "trim q \<noteq> []" and "round_trip_succeeds w q c"
  shows "chatHistory (submit w q c) =
     chatHistory c @ [turn ''user'' (JStr (trim q)), turn ''model'' (reply_text w q c)]"
  using assms
  by (auto simp: submit_history round_trip_succeeds_def reply_text_def split: sum.splits)

text \<open>The page after a submission whose round trip fails.\<close>

lemma submit_failure:
  assumes "trim q \<noteq> []"
    and "fetchWithRetry (the_network w) CHAT_API_ENDPOINT
           (chat_options (chatHistory c @ [turn ''user'' (JStr (trim q))])) 0 (events c) = (Inl e, evs)"
  shows "submit w q c =
     c\<lparr>chatHistory := chatHistory c @ [turn ''user'' (JStr (trim q))],
       input_value := [], input_disabled := False, button_disabled := False,
       send_text_hidden := False, spinner_hidden := True, input_focused := True,
       chat_window := chat_window c @
         [\<lparr>bubble = JStr (trim q), from_user = True, links = []\<rparr>,
          \<lparr>bubble = JStr fallback_message, from_user = False, links = []\<rparr>],
       events := evs @ [ConsoleError ''Error communicating with Node.js server:'' e]\<rparr>"
  using assms
  by (simp add: submit_def sendMessage_def try_block_def catch_block_def finally_block_def
      displayMessage_user displayMessage_bot_string replace_newlines_fallback Let_def)

subsection \<open>Sequences of submissions\<close>

lemma all_succeed_history:
  "all_succeed w qs c \<Longrightarrow> chatHistory (submit_all w qs c) = chatHistory c @ exchanges w qs c"
  by (induction qs arbitrary: c) (simp_all add: submit_history_success)

lemma length_exchanges: "length (exchanges w qs c) = 2 * length qs"
  by (induction qs arbitrary: c) simp_all

lemma role_of_turn [simp]: "role_of (turn r t) = JStr r"
  by (simp add: role_of_def turn_def)

lemma alternating_exchanges: "alternating True (exchanges w qs c)"
  by (induction qs arbitrary: c) simp_all

subsection \<open>Calls that overlap, and calls in turn\<close>

lemma run_append [simp]: "run w (as @ bs) b = run w bs (run w as b)"
  by (induction as arbitrary: b) simp_all

text \<open>The two parts of a call, with the wrapper between them, make up \<open>sendMessage\<close>.\<close>

lemma try_block_eq:
  "try_block w c =
     (case fetchWithRetry (the_network w) CHAT_API_ENDPOINT (chat_options (chatHistory c)) 0 (events c) of
        (outcome, evs) \<Rightarrow> rest_of_try w outcome (c\<lparr>events := evs\<rparr>))"
  by (simp add: try_block_def rest_of_try_def Let_def split: prod.splits sum.splits)

lemma sendMessage_eq:
  "sendMessage w c =
     (case before_await w c of
        None \<Rightarrow>
          (if trim (input_value c) = [] then (None, c)
           else (case displayMessage (converts_positive w) (JStr (trim (input_value c))) True
                        JUndefined c of
                   Inl e \<Rightarrow> (Some e, c)
                 | Inr c1 \<Rightarrow> (None, c)))
      | Some c3 \<Rightarrow>
          (case fetchWithRetry (the_network w) CHAT_API_ENDPOINT (chat_options (chatHistory c3)) 0
                  (events c3) of
             (outcome, evs) \<Rightarrow> after_await w outcome (c3\<lparr>events := evs\<rparr>)))"
  by (simp add: sendMessage_def before_await_def after_await_def try_block_eq Let_def
      split: prod.splits sum.splits option.splits)

lemma before_await_nonblank:
  "trim (input_value c) \<noteq> [] \<Longrightarrow>
   before_await w c =
     Some (c\<lparr>chat_window := chat_window c @
                [\<lparr>bubble = JStr (trim (input_value c)), from_user = True, links = []\<rparr>],
             input_value := [], input_disabled := True, button_disabled := True,
             send_text_hidden := True, spinner_hidden := False,
             chatHistory := chatHistory c @ [turn ''user'' (JStr (trim (input_value c)))]\<rparr>)"
  by (simp add: before_await_def displayMessage_user Let_def)

lemma before_await_blank: "trim (input_value c) = [] \<Longrightarrow> before_await w c = None"
  by (simp add: before_await_def)

text \<open>A suspended call that is taken to its end with nothing in between does what the
  wrapper and the rest of \<open>sendMessage\<close> do.\<close>

lemma solo_run:
  assumes "i < length (calls b)" and "calls b ! i = AwaitingFetch (fetch_count evs) u opts k"
    and "events (page b) = evs @ [Fetch u opts]"
  shows "run w (solo (the_network w) (fetch_count evs) u opts k i) b =
     (case fetchWithRetry (the_network w) u opts k evs of
        (outcome, evs') \<Rightarrow>
          b\<lparr>page := snd (after_await w outcome ((page b)\<lparr>events := evs'\<rparr>)),
            calls := (calls b)[i := Settled]\<rparr>)"
  using assms
proof (induction "the_network w" u opts k evs arbitrary: b rule: fetchWithRetry.induct)
  case (1 u opts retries evs)
  have same: "(page b)\<lparr>events := evs @ [Fetch u opts]\<rparr> = page b"
    using "1.prems"(3) by simp
  show ?case
  proof (cases "attempt (the_network w (fetch_count evs) u opts)")
    case (Inr v)
    show ?thesis
      using Inr "1.prems"
      by (subst solo.simps) (simp add: fetchWithRetry_success settle_fetch_def same)
  next
    case (Inl e)
    show ?thesis
    proof (cases "retries < MAX_RETRIES")
      case False
      show ?thesis
        using Inl False "1.prems"
        by (subst solo.simps) (simp add: fetchWithRetry_failure settle_fetch_def same)
    next
      case True
      let ?evs = "evs @ [Fetch u opts, Timeout (2 ^ retries * 1000)]"
      let ?b = "b\<lparr>page := (page b)\<lparr>events := ?evs @ [Fetch u opts]\<rparr>,
                  calls := (calls b)[i := AwaitingFetch (fetch_count ?evs) u opts (retries + 1)]\<rparr>"
      have IH: "run w (solo (the_network w) (fetch_count ?evs) u opts (retries + 1) i) ?b =
          (case fetchWithRetry (the_network w) u opts (retries + 1) ?evs of
             (outcome, evs') \<Rightarrow>
               ?b\<lparr>page := snd (after_await w outcome ((page ?b)\<lparr>events := evs'\<rparr>)),
                  calls := (calls ?b)[i := Settled]\<rparr>)"
        using "1.prems"(1) by (intro "1.hyps" [OF Inl True]) simp_all
      have "run w (solo (the_network w) (fetch_count evs) u opts retries i) b =
          run w (solo (the_network w) (fetch_count ?evs) u opts (retries + 1) i) ?b"
        using Inl True "1.prems"
        by (subst solo.simps) (simp add: settle_fetch_def fire_timer_def)
      also note IH
      finally show ?thesis
        using Inl True by (simp add: fetchWithRetry_failure split: prod.splits)
    qed
  qed
qed

text \<open>So \<open>submit\<close> is the run in which a text is submitted and its call taken to its
  end.\<close>

lemma submit_as_run:
  assumes "trim q \<noteq> []"
  shows "run w (Submit q # solo (the_network w) (fetch_count (events (page b))) CHAT_API_ENDPOINT
             (chat_options (chatHistory (page b) @ [turn ''user'' (JStr (trim q))])) 0
             (length (calls b))) b =
         b\<lparr>page := submit w q (page b), calls := calls b @ [Settled]\<rparr>"
proof -
  let ?opts = "chat_options (chatHistory (page b) @ [turn ''user'' (JStr (trim q))])"
  obtain c3 where c3: "before_await w ((page b)\<lparr>input_value := q\<rparr>) = Some c3"
    "chatHistory c3 = chatHistory (page b) @ [turn ''user'' (JStr (trim q))]"
    "events c3 = events (page b)"
    using assms by (simp add: before_await_nonblank)
  let ?b = "b\<lparr>page := c3\<lparr>events := events (page b) @ [Fetch CHAT_API_ENDPOINT ?opts]\<rparr>,
              calls := calls b @ [AwaitingFetch (fetch_count (events (page b))) CHAT_API_ENDPOINT ?opts 0]\<rparr>"
  have start: "step w (Submit q) b = ?b"
    using c3 by (simp add: call_sendMessage_def)
  have "run w (solo (the_network w) (fetch_count (events (page b))) CHAT_API_ENDPOINT ?opts 0
          (length (calls b))) ?b =
        (case fetchWithRetry (the_network w) CHAT_API_ENDPOINT ?opts 0 (events (page b)) of
           (outcome, evs') \<Rightarrow>
             ?b\<lparr>page := snd (after_await w outcome ((page ?b)\<lparr>events := evs'\<rparr>)),
                calls := (calls ?b)[length (calls b) := Settled]\<rparr>)"
    by (rule solo_run) simp_all
  moreover have "submit w q (page b) =
      (case fetchWithRetry (the_network w) CHAT_API_ENDPOINT ?opts 0 (events (page b)) of
         (outcome, evs') \<Rightarrow> snd (after_await w outcome (c3\<lparr>events := evs'\<rparr>)))"
    using c3 by (simp add: submit_def sendMessage_eq split: prod.splits)
  ultimately show ?thesis
    using start by (simp split: prod.splits)
qed

lemma submit_blank_as_run:
  assumes "trim q = []"
  shows "run w [Submit q] b = b\<lparr>page := submit w q (page b)\<rparr>"
  using assms
  by (simp add: call_sendMessage_def before_await_blank submit_def sendMessage_def)

text \<open>And \<open>submit_all\<close> is the run in which the texts are submitted in turn.\<close>

lemma turn_by_turn_run:
  "page (run w (turn_by_turn w qs b) b) = submit_all w qs (page b)"
proof (induction qs arbitrary: b)
  case Nil
  show ?case by simp
next
  case (Cons q qs)
  show ?case
  proof (cases "trim q = []")
    case True
    then show ?thesis
      using Cons.IH [of "b\<lparr>page := submit w q (page b)\<rparr>"] submit_blank_as_run [OF True, of w b]
      by (simp add: Let_def)
  next
    case False
    then show ?thesis
      using Cons.IH [of "b\<lparr>page := submit w q (page b), calls := calls b @ [Settled]\<rparr>"]
        submit_as_run [OF False, of w b]
      by (simp add: Let_def)
  qed
qed

text \<open>While a call is suspended the send button is disabled, and Enter does nothing.\<close>

lemma before_await_disables:
  "before_await w c = Some c' \<Longrightarrow> button_disabled c' \<and> input_disabled c'"
  by (auto simp: before_await_def Let_def split: if_splits sum.splits)

lemma press_enter_disabled: "button_disabled (page b) \<Longrightarrow> step w PressEnter b = b"
  by (simp add: press_enter_def)

lemma displayMessage_answer:
  "displayMessage conv (JStr s) False (JArr []) c =
     Inr (c\<lparr>chat_window := chat_window c @
            [\<lparr>bubble = JStr (replace_newlines s), from_user = False, links = []\<rparr>]\<rparr>)"
  by (simp add: displayMessage_def text_replace_def)

lemma after_await_answer:
  "chatHistory (snd (after_await w (Inr proxy_answer) c)) =
     chatHistory c @ [turn ''model'' (JStr ''Eat oats.'')]"
  "events (snd (after_await w (Inr proxy_answer) c)) = events c"
  by (simp_all add: after_await_def rest_of_try_def proxy_answer_def displayMessage_answer
      finally_block_def Let_def)

subsection \<open>The concrete runs\<close>

lemma trim_words:
  "trim ''hi'' = ''hi''" "trim '' more '' = ''more''" "trim ''a'' = ''a''" "trim ''b'' = ''b''"
  "trim blank_input = []"
  by (simp_all add: trim_def js_whitespace_def blank_input_def)

lemma round_trip_steady: "round_trip steady_world q c = Inr proxy_answer"
  by (simp add: round_trip_def steady_world_def
      fetchWithRetry_success [where v = proxy_answer] answering_def attempt_def resp_ok_def)

lemma outage_round_trip:
  "fetchWithRetry down_then_up u opts 0 [] =
     (Inl (TypeError ''Failed to fetch''), exhausted_trace u opts)"
proof -
  have "fetchWithRetry down_then_up u opts 0 [] =
      (Inl (TypeError ''Failed to fetch''), [] @ backoff_trace u opts 0 5)"
    by (intro fetchWithRetry_all_fail [where err = "\<lambda>i. TypeError ''Failed to fetch''"])
       (simp_all add: MAX_RETRIES_def down_then_up_def attempt_def)
  then show ?thesis by (simp add: backoff_trace_5)
qed

lemma round_trip_outage:
  "round_trip recovering_world ''a'' fresh_page = Inl (TypeError ''Failed to fetch'')"
  by (simp add: round_trip_def recovering_world_def fresh_page_def outage_round_trip)

lemma page_after_outage:
  "chatHistory (submit recovering_world ''a'' fresh_page) = [turn ''user'' (JStr ''a'')]"
  "events (submit recovering_world ''a'' fresh_page) =
     exhausted_trace CHAT_API_ENDPOINT (chat_options [turn ''user'' (JStr ''a'')]) @
     [ConsoleError ''Error communicating with Node.js server:'' (TypeError ''Failed to fetch'')]"
proof -
  have f: "fetchWithRetry (the_network recovering_world) CHAT_API_ENDPOINT
      (chat_options (chatHistory fresh_page @ [turn ''user'' (JStr (trim ''a''))])) 0 (events fresh_page) =
    (Inl (TypeError ''Failed to fetch''),
     exhausted_trace CHAT_API_ENDPOINT (chat_options [turn ''user'' (JStr ''a'')]))"
    by (simp add: recovering_world_def fresh_page_def trim_words outage_round_trip)
  have t: "trim ''a'' \<noteq> []" by (simp add: trim_words)
  show "chatHistory (submit recovering_world ''a'' fresh_page) = [turn ''user'' (JStr ''a'')]"
    using submit_failure [OF t f] by (simp add: trim_words fresh_page_def)
  show "events (submit recovering_world ''a'' fresh_page) =
     exhausted_trace CHAT_API_ENDPOINT (chat_options [turn ''user'' (JStr ''a'')]) @
     [ConsoleError ''Error communicating with Node.js server:'' (TypeError ''Failed to fetch'')]"
    by (simp add: submit_failure [OF t f])
qed

lemma round_trip_after_outage:
  "round_trip recovering_world ''b'' (submit recovering_world ''a'' fresh_page) = Inr proxy_answer"
proof -
  let ?evs = "exhausted_trace CHAT_API_ENDPOINT (chat_options [turn ''user'' (JStr ''a'')]) @
     [ConsoleError ''Error communicating with Node.js server:'' (TypeError ''Failed to fetch'')]"
  have "round_trip recovering_world ''b'' (submit recovering_world ''a'' fresh_page) =
      fst (fetchWithRetry (the_network recovering_world) CHAT_API_ENDPOINT
        (chat_options [turn ''user'' (JStr ''a''), turn ''user'' (JStr ''b'')]) 0 ?evs)"
    by (simp add: round_trip_def page_after_outage trim_words)
  also have "\<dots> = Inr proxy_answer"
    by (simp add: recovering_world_def exhausted_trace_def
        fetchWithRetry_success [where v = proxy_answer] down_then_up_def attempt_def resp_ok_def)
  finally show ?thesis .
qed

lemma succeeds_after_outage:
  "round_trip_succeeds recovering_world ''b'' (submit recovering_world ''a'' fresh_page)"
  by (simp add: round_trip_succeeds_def round_trip_after_outage proxy_answer_def)

section \<open>Properties of the proxy\<close>

text \<open>
  Claim C4, as amended. The chat operation is the route \<open>POST /api/chat\<close>: a request
  to it is given to the handler. For every such request whose parsed body has no
  \<open>chatHistory\<close>, or one that is not an array, the handler answers with the status 400
  and the body \<open>{error: 'Invalid chat history provided.'}\<close>, and makes no call of the
  provider.
\<close>

theorem invalid_chat_history_rejected:
  assumes "http_method req = POST" and "route_matches ''/api/chat'' (path req)"
    and "\<not> nullish (parsed_body req)"
    and "\<not> isArray (js_prop (parsed_body req) ''chatHistory'')"
  shows "app static_file generateContent req =
           ChatRoute (chat_handler generateContent (parsed_body req)) \<and>
         chat_handler generateContent (parsed_body req) =
           Inr \<lparr>response = \<lparr>status = 400,
                   body = JObj [(''error'', JStr ''Invalid chat history provided.'')]\<rparr>,
                provider_calls = [], console = []\<rparr>"
  using assms by (simp add: app_def chat_handler_def invalid_input_response_def)

text \<open>A body with no \<open>chatHistory\<close>, and one whose \<open>chatHistory\<close> is a string.\<close>

theorem invalid_chat_history_rejected_witness:
  "app no_static_file (provider_returning answer_with_text)
     \<lparr>http_method = POST, path = ''/api/chat'', parsed_body = JObj []\<rparr> =
     ChatRoute (Inr \<lparr>response = \<lparr>status = 400,
                        body = JObj [(''error'', JStr ''Invalid chat history provided.'')]\<rparr>,
                     provider_calls = [], console = []\<rparr>) \<and>
   app no_static_file (provider_returning answer_with_text)
     \<lparr>http_method = POST, path = ''/api/chat'',
      parsed_body = JObj [(''chatHistory'', JStr ''hello'')]\<rparr> =
     ChatRoute (Inr \<lparr>response = \<lparr>status = 400,
                        body = JObj [(''error'', JStr ''Invalid chat history provided.'')]\<rparr>,
                     provider_calls = [], console = []\<rparr>)"
proof -
  have m: "route_matches ''/api/chat'' ''/api/chat''"
    by (simp add: route_matches_def)
  show ?thesis
    using invalid_chat_history_rejected
      [of "\<lparr>http_method = POST, path = ''/api/chat'', parsed_body = JObj []\<rparr>"
          no_static_file "provider_returning answer_with_text"]
      invalid_chat_history_rejected
      [of "\<lparr>http_method = POST, path = ''/api/chat'',
            parsed_body = JObj [(''chatHistory'', JStr ''hello'')]\<rparr>"
          no_static_file "provider_returning answer_with_text"]
      m
    by simp
qed

text \<open>The application has no route \<open>POST /chat\<close>: such a request, here one whose body has
  no \<open>chatHistory\<close>, never reaches the handler and gets no 400 answer from it.\<close>

theorem chat_route_counterexample:
  "app no_static_file (provider_returning answer_with_text)
     \<lparr>http_method = POST, path = ''/chat'', parsed_body = JObj []\<rparr> = NotFound"
  by (simp add: app_def no_static_file_def route_matches_def lower_char_def)

text \<open>
  Claim C7, as amended. For every response object of the provider in which the text of
  the first part of the first candidate is absent, or the grounding attributions are
  absent or a sequence without \<open>null\<close> entries, the proxy answers with the status 200,
  and the text it returns is the text of the first part of the first candidate when that
  text is present, and the fixed placeholder otherwise; it is never empty and never
  \<open>undefined\<close>. Every answer with the status 200 carries that text.
\<close>

theorem proxy_text_selection:
  assumes "\<not> nullish req_body" and "js_prop req_body ''chatHistory'' = JArr h"
    and "generateContent (provider_request (JArr h)) = Inr resp" and "\<not> nullish resp"
  shows "\<exists>out. chat_handler generateContent req_body = Inr out \<and>
           (status (response out) = 200 \<longrightarrow>
              js_prop (body (response out)) ''text'' = selected_text resp) \<and>
           (\<not> truthy (first_part_text resp) \<or> well_formed_attributions resp \<longrightarrow>
              (\<exists>sources. response out = success_response (selected_text resp) sources)) \<and>
           truthy (selected_text resp) \<and> selected_text resp \<noteq> JUndefined \<and>
           selected_text resp \<noteq> JStr []"
proof -
  have nz: "selected_text resp \<noteq> JUndefined" "selected_text resp \<noteq> JStr []"
    using selected_text_truthy [of resp] by auto
  show ?thesis
  proof (cases "truthy (first_part_text resp)")
    case False
    then have "normalize_response resp = Inr (selected_text resp, [])"
      using assms(4) by (simp add: normalize_response_eq selected_text_def)
    then show ?thesis
      using assms nz selected_text_truthy [of resp]
      by (simp add: chat_handler_valid success_response_def)
  next
    case True
    then have sel: "selected_text resp = first_part_text resp" by (simp add: selected_text_def)
    show ?thesis
    proof (cases "extract_sources (opt_index0 (opt_prop resp ''candidates''))")
      case (Inl e)
      have "\<not> well_formed_attributions resp"
        using extract_sources_well_formed [OF assms(4) True] Inl by auto
      moreover have "normalize_response resp = Inl e"
        using assms(4) True Inl by (simp add: normalize_response_eq)
      ultimately show ?thesis
        using assms True nz selected_text_truthy [of resp]
        by (simp add: chat_handler_valid upstream_failure_response_def)
    next
      case (Inr sources)
      then have "normalize_response resp = Inr (selected_text resp, sources)"
        using assms(4) True sel by (simp add: normalize_response_eq)
      then show ?thesis
        using assms nz selected_text_truthy [of resp]
        by (simp add: chat_handler_valid success_response_def)
    qed
  qed
qed

text \<open>A response with a text, and one without.\<close>

theorem proxy_text_selection_witness:
  "(\<exists>out. chat_handler (provider_returning answer_with_text) chat_body = Inr out \<and>
      status (response out) = 200 \<and>
      js_prop (body (response out)) ''text'' = JStr ''Eat oats.'') \<and>
   (\<exists>out. chat_handler (provider_returning answer_without_text) chat_body = Inr out \<and>
      status (response out) = 200 \<and>
      js_prop (body (response out)) ''text'' = JStr placeholder_text)"
proof -
  have p: "provider_returning answer_with_text (provider_request (JArr [])) = Inr answer_with_text"
    "provider_returning answer_without_text (provider_request (JArr [])) = Inr answer_without_text"
    by (simp_all add: provider_returning_def)
  have a: "\<not> nullish answer_with_text" "well_formed_attributions answer_with_text"
    "selected_text answer_with_text = JStr ''Eat oats.''"
    by (simp_all add: answer_with_text_def well_formed_attributions_def selected_text_def chain_defs)
  have b: "\<not> nullish answer_without_text" "\<not> truthy (first_part_text answer_without_text)"
    "selected_text answer_without_text = JStr placeholder_text"
    by (simp_all add: answer_without_text_def selected_text_def chain_defs)
  from proxy_text_selection
      [where generateContent = "provider_returning answer_with_text", OF chat_body_valid p(1) a(1)]
    proxy_text_selection
      [where generateContent = "provider_returning answer_without_text", OF chat_body_valid p(2) b(1)]
    a b
  show ?thesis by (auto simp: success_response_def)
qed

text \<open>Without the condition on the attributions the property fails: this response has
  a text, and a \<open>null\<close> among its grounding attributions; line 72 throws on it, and the
  proxy answers with the status 500 and no text.\<close>

theorem proxy_text_selection_counterexample:
  "first_part_text answer_with_null_attribution = JStr ''Eat oats.'' \<and>
   chat_handler (provider_returning answer_with_null_attribution) chat_body =
     Inr \<lparr>response = \<lparr>status = 500,
             body = JObj [(''error'', JStr ''Failed to communicate with the AI service.'')]\<rparr>,
          provider_calls = [provider_request (JArr [])],
          console = [(''Gemini API Error:'', TypeError ''web'')]\<rparr>"
proof -
  have "normalize_response answer_with_null_attribution = Inl (TypeError ''web'')"
    by (simp add: normalize_response_eq answer_with_null_attribution_def chain_defs
        extract_sources_def attribution_source_def get_def)
  moreover have "first_part_text answer_with_null_attribution = JStr ''Eat oats.''"
    by (simp add: answer_with_null_attribution_def chain_defs)
  ultimately show ?thesis
    by (simp add: chat_handler_valid chat_body_valid provider_returning_def
        upstream_failure_response_def)
qed

text \<open>
  Claim C8, as amended. For every response of the provider whose first candidate has a
  text and whose grounding attributions are absent or a sequence without \<open>null\<close> entries,
  the proxy returns as \<open>sources\<close> exactly the complete attributions, each as
  \<open>{uri, title}\<close> and in their order: an attribution that lacks a field, or has an empty
  one, is dropped. When the attributions are absent the proxy returns \<open>sources: []\<close> with
  the status 200, never an error.
\<close>

theorem grounding_sources:
  assumes "\<not> nullish req_body" and "js_prop req_body ''chatHistory'' = JArr h"
    and "generateContent (provider_request (JArr h)) = Inr resp" and "\<not> nullish resp"
  shows "(truthy (first_part_text resp) \<and> well_formed_attributions resp \<longrightarrow>
            chat_handler generateContent req_body =
              Inr \<lparr>response = success_response (first_part_text resp) (complete_sources resp),
                   provider_calls = [provider_request (JArr h)], console = []\<rparr>) \<and>
         (\<not> truthy (grounding_attributions resp) \<longrightarrow>
            chat_handler generateContent req_body =
              Inr \<lparr>response = success_response (selected_text resp) [],
                   provider_calls = [provider_request (JArr h)], console = []\<rparr>)"
proof (intro conjI impI)
  assume a: "truthy (first_part_text resp) \<and> well_formed_attributions resp"
  then have "normalize_response resp = Inr (first_part_text resp, complete_sources resp)"
    using assms(4) by (simp add: normalize_response_eq extract_sources_well_formed)
  then show "chat_handler generateContent req_body =
      Inr \<lparr>response = success_response (first_part_text resp) (complete_sources resp),
           provider_calls = [provider_request (JArr h)], console = []\<rparr>"
    using assms by (simp add: chat_handler_valid)
next
  assume a: "\<not> truthy (grounding_attributions resp)"
  have "normalize_response resp = Inr (selected_text resp, [])"
  proof (cases "truthy (first_part_text resp)")
    case True
    have wf: "well_formed_attributions resp"
      using a by (cases "grounding_attributions resp") (simp_all add: well_formed_attributions_def)
    have "complete_sources resp = []"
      using a by (cases "grounding_attributions resp") (simp_all add: complete_sources_def)
    with True wf show ?thesis
      using assms(4)
      by (simp add: normalize_response_eq extract_sources_well_formed selected_text_def)
  next
    case False
    then show ?thesis using assms(4) by (simp add: normalize_response_eq selected_text_def)
  qed
  then show "chat_handler generateContent req_body =
      Inr \<lparr>response = success_response (selected_text resp) [],
           provider_calls = [provider_request (JArr h)], console = []\<rparr>"
    using assms by (simp add: chat_handler_valid)
qed

text \<open>A response with one complete attribution and one without a title, and a response
  with no grounding metadata.\<close>

theorem grounding_sources_witness:
  "chat_handler (provider_returning answer_with_sources) chat_body =
     Inr \<lparr>response = \<lparr>status = 200, body = JObj [(''text'', JStr ''Eat oats.''),
             (''sources'', JArr [JObj [(''uri'', JStr ''https://example.org/oats''),
                                       (''title'', JStr ''Oats'')]])]\<rparr>,
          provider_calls = [provider_request (JArr [])], console = []\<rparr> \<and>
   chat_handler (provider_returning answer_with_text) chat_body =
     Inr \<lparr>response = \<lparr>status = 200, body = JObj [(''text'', JStr ''Eat oats.''),
             (''sources'', JArr [])]\<rparr>,
          provider_calls = [provider_request (JArr [])], console = []\<rparr>"
proof -
  have s: "\<not> nullish answer_with_sources" "truthy (first_part_text answer_with_sources)"
    "well_formed_attributions answer_with_sources"
    "first_part_text answer_with_sources = JStr ''Eat oats.''"
    "complete_sources answer_with_sources =
       [JObj [(''uri'', JStr ''https://example.org/oats''), (''title'', JStr ''Oats'')]]"
    by (simp_all add: answer_with_sources_def chain_defs well_formed_attributions_def
        complete_sources_def as_source_def complete_attribution_def attribution_uri_def
        attribution_title_def)
  have t: "\<not> nullish answer_with_text" "\<not> truthy (grounding_attributions answer_with_text)"
    "selected_text answer_with_text = JStr ''Eat oats.''"
    by (simp_all add: answer_with_text_def chain_defs selected_text_def)
  have p: "provider_returning answer_with_sources (provider_request (JArr [])) = Inr answer_with_sources"
    "provider_returning answer_with_text (provider_request (JArr [])) = Inr answer_with_text"
    by (simp_all add: provider_returning_def)
  from grounding_sources
      [where generateContent = "provider_returning answer_with_sources", OF chat_body_valid p(1) s(1)]
    grounding_sources
      [where generateContent = "provider_returning answer_with_text", OF chat_body_valid p(2) t(1)]
    s t
  show ?thesis by (simp add: success_response_def)
qed

text \<open>Without the condition on the text the property fails: this response has grounding
  metadata with a complete attribution and no text, and the proxy returns no source.\<close>

theorem grounding_sources_counterexample:
  "complete_sources answer_without_text =
     [JObj [(''uri'', JStr ''https://example.org/oats''), (''title'', JStr ''Oats'')]] \<and>
   chat_handler (provider_returning answer_without_text) chat_body =
     Inr \<lparr>response = \<lparr>status = 200,
             body = JObj [(''text'', JStr placeholder_text), (''sources'', JArr [])]\<rparr>,
          provider_calls = [provider_request (JArr [])], console = []\<rparr>"
proof -
  have "normalize_response answer_without_text = Inr (JStr placeholder_text, [])"
    by (simp add: normalize_response_eq answer_without_text_def chain_defs)
  moreover have "complete_sources answer_without_text =
     [JObj [(''uri'', JStr ''https://example.org/oats''), (''title'', JStr ''Oats'')]]"
    by (simp add: complete_sources_def answer_without_text_def chain_defs as_source_def
        complete_attribution_def attribution_uri_def attribution_title_def)
  ultimately show ?thesis
    by (simp add: chat_handler_valid chat_body_valid provider_returning_def success_response_def)
qed

text \<open>
  Claim C9. For every request whose call of the provider throws, the proxy answers with the
  status 500 and the fixed body \<open>{error: 'Failed to communicate with the AI service.'}\<close>,
  which differs from the answer to an invalid input and has nothing of the error in it;
  the error goes to the console only.
\<close>

theorem provider_failure_reply:
  assumes "\<not> nullish req_body" and "js_prop req_body ''chatHistory'' = JArr h"
    and "generateContent (provider_request (JArr h)) = Inl e"
  shows "chat_handler generateContent req_body =
           Inr \<lparr>response = \<lparr>status = 500,
                   body = JObj [(''error'', JStr ''Failed to communicate with the AI service.'')]\<rparr>,
                provider_calls = [provider_request (JArr h)],
                console = [(''Gemini API Error:'', e)]\<rparr> \<and>
         upstream_failure_response \<noteq> invalid_input_response"
  using assms
  by (simp add: chat_handler_valid upstream_failure_response_def invalid_input_response_def)

text \<open>A provider that throws an error with a detailed message.\<close>

theorem provider_failure_reply_witness:
  "chat_handler (provider_throwing (OtherError ''429 quota exceeded for key AIza-secret'')) chat_body =
     Inr \<lparr>response = \<lparr>status = 500,
             body = JObj [(''error'', JStr ''Failed to communicate with the AI service.'')]\<rparr>,
          provider_calls = [provider_request (JArr [])],
          console = [(''Gemini API Error:'', OtherError ''429 quota exceeded for key AIza-secret'')]\<rparr>"
proof -
  have p: "provider_throwing (OtherError ''429 quota exceeded for key AIza-secret'')
      (provider_request (JArr [])) = Inl (OtherError ''429 quota exceeded for key AIza-secret'')"
    by (simp add: provider_throwing_def)
  from provider_failure_reply
    [where generateContent = "provider_throwing (OtherError ''429 quota exceeded for key AIza-secret'')",
      OF chat_body_valid p]
  show ?thesis by simp
qed

text \<open>
  Claim C10. For every response of the provider in which the text of the first part of the
  first candidate is absent, the proxy answers with the status 200, the placeholder text
  and \<open>sources: []\<close>, whatever grounding metadata the response has; 200 is the status of
  every answer that carries a text.
\<close>

theorem placeholder_reply:
  assumes "\<not> nullish req_body" and "js_prop req_body ''chatHistory'' = JArr h"
    and "generateContent (provider_request (JArr h)) = Inr resp" and "\<not> nullish resp"
    and "\<not> truthy (first_part_text resp)"
  shows "chat_handler generateContent req_body =
           Inr \<lparr>response = \<lparr>status = 200,
                   body = JObj [(''text'', JStr placeholder_text), (''sources'', JArr [])]\<rparr>,
                provider_calls = [provider_request (JArr h)], console = []\<rparr> \<and>
         (\<forall>botText sources. status (success_response botText sources) = 200)"
proof -
  have "normalize_response resp = Inr (JStr placeholder_text, [])"
    using assms(4,5) by (simp add: normalize_response_eq)
  then show ?thesis
    using assms(1-3) by (simp add: chat_handler_valid success_response_def)
qed

text \<open>A response with no text and with a complete attribution.\<close>

theorem placeholder_reply_witness:
  "complete_sources answer_without_text \<noteq> [] \<and>
   chat_handler (provider_returning answer_without_text) chat_body =
     Inr \<lparr>response = \<lparr>status = 200,
             body = JObj [(''text'', JStr placeholder_text), (''sources'', JArr [])]\<rparr>,
          provider_calls = [provider_request (JArr [])], console = []\<rparr>"
proof -
  have r: "\<not> nullish answer_without_text" "\<not> truthy (first_part_text answer_without_text)"
    by (simp_all add: answer_without_text_def chain_defs)
  have p: "provider_returning answer_without_text (provider_request (JArr [])) = Inr answer_without_text"
    by (simp add: provider_returning_def)
  have c: "complete_sources answer_without_text \<noteq> []"
    by (simp add: complete_sources_def answer_without_text_def chain_defs complete_attribution_def
        attribution_uri_def attribution_title_def)
  from placeholder_reply
    [where generateContent = "provider_returning answer_without_text", OF chat_body_valid p r] c
  show ?thesis by simp
qed


section \<open>Properties of the client\<close>

text \<open>
  Claim C1 fails on the code. \<open>sendMessage\<close> disables the input and the send button
  while its request is on its way (lines 74 and 75), and pressing Enter respects that
  (line 125), but the quick-action buttons call \<open>sendMessage\<close> without looking at the
  flags (lines 213 to 219). A second quick action clicked while the first call waits for
  its answer puts its user turn next to the first one; both round trips succeed, the
  history has 2N = 4 turns, and the roles are \<open>user\<close>, \<open>user\<close>, \<open>model\<close>,
  \<open>model\<close>: they do not alternate.
\<close>

theorem overlapping_round_trips:
  "button_disabled (page (run steady_world [QuickActionClick ''a'', QuickActionFires] loaded_page)) \<and>
   chatHistory (page overlapping_run) =
     [turn ''user'' (JStr ''a''), turn ''user'' (JStr ''b''),
      turn ''model'' (JStr ''Eat oats.''), turn ''model'' (JStr ''Eat oats.'')] \<and>
   calls overlapping_run = [Settled, Settled] \<and>
   events (page overlapping_run) =
     [Fetch CHAT_API_ENDPOINT (chat_options [turn ''user'' (JStr ''a'')]),
      Fetch CHAT_API_ENDPOINT
        (chat_options [turn ''user'' (JStr ''a''), turn ''user'' (JStr ''b'')])] \<and>
   map role_of (chatHistory (page overlapping_run)) =
     [JStr ''user'', JStr ''user'', JStr ''model'', JStr ''model''] \<and>
   \<not> alternating True (chatHistory (page overlapping_run))"
proof -
  let ?a = "turn ''user'' (JStr ''a'')"
  let ?b = "turn ''user'' (JStr ''b'')"
  define b2 where "b2 = run steady_world [QuickActionClick ''a'', QuickActionFires] loaded_page"
  define b4 where "b4 = run steady_world [QuickActionClick ''b'', QuickActionFires] b2"
  define b5 where "b5 = step steady_world (FetchSettles 0) b4"
  define b6 where "b6 = step steady_world (FetchSettles 1) b5"
  have r: "overlapping_run = b6"
    by (simp add: overlapping_run_def b2_def b4_def b5_def b6_def)
  have 2: "chatHistory (page b2) = [?a]"
    "events (page b2) = [Fetch CHAT_API_ENDPOINT (chat_options [?a])]"
    "calls b2 = [AwaitingFetch 0 CHAT_API_ENDPOINT (chat_options [?a]) 0]"
    "quick_action_timers b2 = 0" "button_disabled (page b2)"
    by (simp_all add: b2_def loaded_page_def quick_action_click_def quick_action_fires_def
        call_sendMessage_def before_await_nonblank trim_words fresh_page_def)
  have 4: "chatHistory (page b4) = [?a, ?b]"
    "events (page b4) =
       [Fetch CHAT_API_ENDPOINT (chat_options [?a]), Fetch CHAT_API_ENDPOINT (chat_options [?a, ?b])]"
    "calls b4 = [AwaitingFetch 0 CHAT_API_ENDPOINT (chat_options [?a]) 0,
                 AwaitingFetch 1 CHAT_API_ENDPOINT (chat_options [?a, ?b]) 0]"
    using 2
    by (simp_all add: b4_def quick_action_click_def quick_action_fires_def
        call_sendMessage_def before_await_nonblank trim_words)
  have ok: "attempt (the_network steady_world n u opts) = Inr proxy_answer" for n u opts
    by (simp add: steady_world_def answering_def attempt_def resp_ok_def)
  have 5: "chatHistory (page b5) = [?a, ?b, turn ''model'' (JStr ''Eat oats.'')]"
    "events (page b5) = events (page b4)"
    "calls b5 = [Settled, AwaitingFetch 1 CHAT_API_ENDPOINT (chat_options [?a, ?b]) 0]"
    using 4 by (simp_all add: b5_def settle_fetch_def ok after_await_answer)
  have 6: "chatHistory (page b6) =
      [?a, ?b, turn ''model'' (JStr ''Eat oats.''), turn ''model'' (JStr ''Eat oats.'')]"
    "events (page b6) = events (page b4)"
    "calls b6 = [Settled, Settled]"
    using 5 by (simp_all add: b6_def settle_fetch_def ok after_await_answer)
  show ?thesis
    using 6 4 2(5) by (simp add: r b2_def)
qed

text \<open>
  When the submissions do not overlap the property holds. For every sequence of N
  submissions in turn that all complete with a successful round trip, starting from the
  empty history, the history afterwards has exactly 2N turns, and their roles alternate
  \<open>user\<close>, \<open>model\<close>, starting with \<open>user\<close>: it is the sequence of the submitted
  texts, each followed by its answer. No call of \<open>sendMessage\<close> that runs alone drops,
  reorders or edits a turn, and every request of a submission carries the history before
  it with the new user turn at its end.
\<close>

lemma history_after_submissions_in_turn:
  assumes "all_succeed w qs c" and "chatHistory c = []"
  shows "chatHistory (submit_all w qs c) = exchanges w qs c \<and>
         length (chatHistory (submit_all w qs c)) = 2 * length qs \<and>
         alternating True (chatHistory (submit_all w qs c)) \<and>
         (\<forall>w' c'. prefix (chatHistory c') (chatHistory (snd (sendMessage w' c')))) \<and>
         (\<forall>w' q' c'. trim q' \<noteq> [] \<longrightarrow>
            (\<exists>n. requests (events (submit w' q' c')) =
               requests (events c') @
               replicate (Suc n) (chat_options (chatHistory c' @ [turn ''user'' (JStr (trim q'))]))))"
proof -
  have "chatHistory (submit_all w qs c) = exchanges w qs c"
    using assms by (simp add: all_succeed_history)
  moreover have "\<forall>w' q' c'. trim q' \<noteq> [] \<longrightarrow>
      (\<exists>n. requests (events (submit w' q' c')) =
         requests (events c') @
         replicate (Suc n) (chat_options (chatHistory c' @ [turn ''user'' (JStr (trim q'))])))"
    using submit_requests by blast
  ultimately show ?thesis
    by (simp only: length_exchanges alternating_exchanges sendMessage_keeps_history simp_thms)
qed

text \<open>Two submissions on a fresh page, each answered at the first attempt.\<close>

lemma history_after_submissions_in_turn_example:
  "chatHistory (submit_all steady_world [''hi'', '' more ''] fresh_page) =
     [turn ''user'' (JStr ''hi''), turn ''model'' (JStr ''Eat oats.''),
      turn ''user'' (JStr ''more''), turn ''model'' (JStr ''Eat oats.'')] \<and>
   length (chatHistory (submit_all steady_world [''hi'', '' more ''] fresh_page)) = 4"
proof -
  have s: "all_succeed steady_world [''hi'', '' more ''] fresh_page"
    by (simp add: trim_words round_trip_succeeds_def round_trip_steady proxy_answer_def)
  have e: "chatHistory fresh_page = []" by (simp add: fresh_page_def)
  have "exchanges steady_world [''hi'', '' more ''] fresh_page =
     [turn ''user'' (JStr ''hi''), turn ''model'' (JStr ''Eat oats.''),
      turn ''user'' (JStr ''more''), turn ''model'' (JStr ''Eat oats.'')]"
    by (simp add: trim_words reply_text_def round_trip_steady proxy_answer_def)
  with history_after_submissions_in_turn [OF s e] show ?thesis by simp
qed

text \<open>
  Claim C2. For every call of the retry wrapper in which every attempt fails, by a
  transport error or a status outside 200 to 299, the wrapper makes exactly 6 calls of
  \<open>fetch\<close>, waits 1, 2, 4, 8 and 16 seconds between them (31 seconds in all, each wait
  exactly \<open>2 ^ k\<close> seconds), and then throws the error of the sixth attempt.
\<close>

theorem retry_exhaustion:
  assumes "\<forall>i<6. transport_or_status_failure (net (fetch_count evs + i) u opts)"
  shows "fetchWithRetry net u opts 0 evs =
           (Inl (failure_error (net (fetch_count evs + 5) u opts)), evs @ exhausted_trace u opts) \<and>
         fetch_count (exhausted_trace u opts) = 6 \<and>
         map timeout_ms (filter (\<lambda>ev. \<not> is_fetch ev) (exhausted_trace u opts)) =
           [1000, 2000, 4000, 8000, 16000] \<and>
         waited_ms (exhausted_trace u opts) = 31000"
proof -
  have "attempt (net (fetch_count evs + i) u opts) =
      Inl (failure_error (net (fetch_count evs + i) u opts))" if "i \<le> 5" for i
    using assms that by (simp add: attempt_failure)
  then have "fetchWithRetry net u opts 0 evs =
      (Inl (failure_error (net (fetch_count evs + 5) u opts)), evs @ backoff_trace u opts 0 5)"
    by (intro fetchWithRetry_all_fail
        [where err = "\<lambda>i. failure_error (net (fetch_count evs + i) u opts)"])
       (simp_all add: MAX_RETRIES_def)
  then show ?thesis
    by (simp add: backoff_trace_5) (simp add: exhausted_trace_def waited_ms_def)
qed

text \<open>A server that answers 503 five times and is then unreachable, and a network that is
  down.\<close>

theorem retry_exhaustion_witness:
  "fetchWithRetry unavailable CHAT_API_ENDPOINT (chat_options []) 0 [] =
     (Inl (TypeError ''Failed to fetch''), exhausted_trace CHAT_API_ENDPOINT (chat_options [])) \<and>
   fetchWithRetry offline CHAT_API_ENDPOINT (chat_options []) 0 [] =
     (Inl (TypeError ''Failed to fetch''), exhausted_trace CHAT_API_ENDPOINT (chat_options []))"
proof -
  have a: "\<forall>i<6. transport_or_status_failure
      (unavailable (fetch_count [] + i) CHAT_API_ENDPOINT (chat_options []))"
    by (simp add: unavailable_def transport_or_status_failure_def resp_ok_def)
  have b: "\<forall>i<6. transport_or_status_failure
      (offline (fetch_count [] + i) CHAT_API_ENDPOINT (chat_options []))"
    by (simp add: offline_def transport_or_status_failure_def)
  from retry_exhaustion [where net = unavailable, OF a] retry_exhaustion [where net = offline, OF b]
  show ?thesis
    by (simp add: unavailable_def offline_def failure_error_def)
qed

text \<open>
  Claim C3, as amended. An attempt that receives a response with a success status whose
  body fails to parse is a failed attempt like any other: while the counter is below 5 the
  wrapper waits \<open>2 ^ retries\<close> seconds and tries again, and only at the counter 5 the
  error of the parser is thrown to the caller.
\<close>

theorem parse_failure_retried:
  assumes "net (fetch_count evs) u opts = Resolved r" and "resp_ok r" and "resp_json r = Inl e"
  shows "fetchWithRetry net u opts retries evs =
     (if retries < 5
      then fetchWithRetry net u opts (retries + 1)
             (evs @ [Fetch u opts, Timeout (2 ^ retries * 1000)])
      else (Inl e, evs @ [Fetch u opts]))"
proof -
  have "attempt (net (fetch_count evs) u opts) = Inl e"
    using assms by (simp add: attempt_def)
  then show ?thesis
    by (simp add: fetchWithRetry_failure MAX_RETRIES_def)
qed

text \<open>A server whose bodies never parse, at the counters 0 and 5.\<close>

theorem parse_failure_retried_witness:
  "fetchWithRetry garbled CHAT_API_ENDPOINT (chat_options []) 0 [] =
     fetchWithRetry garbled CHAT_API_ENDPOINT (chat_options []) 1
       [Fetch CHAT_API_ENDPOINT (chat_options []), Timeout 1000] \<and>
   fetchWithRetry garbled CHAT_API_ENDPOINT (chat_options []) 5 [] =
     (Inl (SyntaxError ''Unexpected token <''), [Fetch CHAT_API_ENDPOINT (chat_options [])])"
proof -
  have g: "garbled (fetch_count []) CHAT_API_ENDPOINT (chat_options []) =
      Resolved \<lparr>resp_status = 200, resp_json = Inl (SyntaxError ''Unexpected token <'')\<rparr>"
    by (simp add: garbled_def)
  have k: "resp_ok \<lparr>resp_status = 200, resp_json = Inl (SyntaxError ''Unexpected token <'')\<rparr>"
    by (simp add: resp_ok_def)
  from parse_failure_retried [where net = garbled and retries = 0, OF g k]
    parse_failure_retried [where net = garbled and retries = 5, OF g k]
  show ?thesis by simp
qed

text \<open>The first body does not parse, the second does: the wrapper waits a second, calls
  \<open>fetch\<close> again and returns the second body. The caller never sees the error.\<close>

theorem parse_failure_counterexample:
  "fetchWithRetry garbled_once CHAT_API_ENDPOINT (chat_options []) 0 [] =
     (Inr proxy_answer,
      [Fetch CHAT_API_ENDPOINT (chat_options []), Timeout 1000,
       Fetch CHAT_API_ENDPOINT (chat_options [])])"
proof -
  have "attempt (garbled_once (fetch_count []) CHAT_API_ENDPOINT (chat_options [])) =
      Inl (SyntaxError ''Unexpected token <'')"
    by (simp add: garbled_once_def attempt_def resp_ok_def)
  then have "fetchWithRetry garbled_once CHAT_API_ENDPOINT (chat_options []) 0 [] =
      fetchWithRetry garbled_once CHAT_API_ENDPOINT (chat_options []) 1
        [Fetch CHAT_API_ENDPOINT (chat_options []), Timeout 1000]"
    by (simp add: fetchWithRetry_failure MAX_RETRIES_def)
  also have "\<dots> = (Inr proxy_answer,
      [Fetch CHAT_API_ENDPOINT (chat_options []), Timeout 1000,
       Fetch CHAT_API_ENDPOINT (chat_options [])])"
    by (subst fetchWithRetry_success [where v = proxy_answer])
       (simp_all add: garbled_once_def attempt_def resp_ok_def)
  finally show ?thesis .
qed

text \<open>
  Claim C5, as amended. For every submission whose round trip ends in terminal failure,
  the page shows the fixed fallback message after the user's message, no model turn is
  added, and the history is the one before with the user turn at its end. The user turn
  stays: the next successful submission adds its own user turn and the model turn after
  it, so two user turns stand next to each other.
\<close>

theorem terminal_failure_keeps_user_turn:
  assumes "trim q \<noteq> []" and "round_trip w q c = Inl e"
  shows "chatHistory (submit w q c) = chatHistory c @ [turn ''user'' (JStr (trim q))] \<and>
         chat_window (submit w q c) = chat_window c @
           [\<lparr>bubble = JStr (trim q), from_user = True, links = []\<rparr>,
            \<lparr>bubble = JStr fallback_message, from_user = False, links = []\<rparr>] \<and>
         (trim q' \<noteq> [] \<and> round_trip_succeeds w q' (submit w q c) \<longrightarrow>
            chatHistory (submit w q' (submit w q c)) =
              chatHistory c @ [turn ''user'' (JStr (trim q)), turn ''user'' (JStr (trim q')),
                               turn ''model'' (reply_text w q' (submit w q c))])"
proof -
  obtain evs where "fetchWithRetry (the_network w) CHAT_API_ENDPOINT
      (chat_options (chatHistory c @ [turn ''user'' (JStr (trim q))])) 0 (events c) = (Inl e, evs)"
    using assms(2) by (cases "fetchWithRetry (the_network w) CHAT_API_ENDPOINT
      (chat_options (chatHistory c @ [turn ''user'' (JStr (trim q))])) 0 (events c)")
      (simp add: round_trip_def)
  then have s: "chatHistory (submit w q c) = chatHistory c @ [turn ''user'' (JStr (trim q))]"
    "chat_window (submit w q c) = chat_window c @
       [\<lparr>bubble = JStr (trim q), from_user = True, links = []\<rparr>,
        \<lparr>bubble = JStr fallback_message, from_user = False, links = []\<rparr>]"
    using assms(1) by (simp_all add: submit_failure)
  then show ?thesis
    by (simp add: submit_history_success)
qed

text \<open>A network that is down for six calls and then answers: a failed submission, then a
  successful one.\<close>

theorem terminal_failure_keeps_user_turn_witness:
  "chatHistory (submit recovering_world ''a'' fresh_page) = [turn ''user'' (JStr ''a'')] \<and>
   chat_window (submit recovering_world ''a'' fresh_page) =
     [\<lparr>bubble = JStr ''a'', from_user = True, links = []\<rparr>,
      \<lparr>bubble = JStr fallback_message, from_user = False, links = []\<rparr>] \<and>
   chatHistory (submit recovering_world ''b'' (submit recovering_world ''a'' fresh_page)) =
     [turn ''user'' (JStr ''a''), turn ''user'' (JStr ''b''), turn ''model'' (JStr ''Eat oats.'')]"
proof -
  have t: "trim ''a'' \<noteq> []" by (simp add: trim_words)
  have r: "reply_text recovering_world ''b'' (submit recovering_world ''a'' fresh_page) = JStr ''Eat oats.''"
    by (simp add: reply_text_def round_trip_after_outage proxy_answer_def)
  from terminal_failure_keeps_user_turn [OF t round_trip_outage, of "''b''"] succeeds_after_outage r
  show ?thesis by (simp add: trim_words fresh_page_def)
qed

text \<open>After the failed submission and the successful one the roles are \<open>user\<close>,
  \<open>user\<close>, \<open>model\<close>: they do not alternate.\<close>

theorem terminal_failure_counterexample:
  "round_trip recovering_world ''a'' fresh_page = Inl (TypeError ''Failed to fetch'') \<and>
   round_trip_succeeds recovering_world ''b'' (submit recovering_world ''a'' fresh_page) \<and>
   map role_of (chatHistory
       (submit recovering_world ''b'' (submit recovering_world ''a'' fresh_page))) =
     [JStr ''user'', JStr ''user'', JStr ''model''] \<and>
   \<not> alternating True (chatHistory
       (submit recovering_world ''b'' (submit recovering_world ''a'' fresh_page)))"
proof -
  have "chatHistory (submit recovering_world ''b'' (submit recovering_world ''a'' fresh_page)) =
      [turn ''user'' (JStr ''a''), turn ''user'' (JStr ''b''),
       turn ''model'' (reply_text recovering_world ''b'' (submit recovering_world ''a'' fresh_page))]"
    using succeeds_after_outage by (simp add: submit_history_success trim_words page_after_outage)
  then show ?thesis
    using succeeds_after_outage by (simp add: round_trip_outage)
qed

text \<open>
  Claim C6. For every input whose trimmed value is empty, \<open>sendMessage\<close> does nothing:
  the page, its history and the record of what was done to the outside (the calls of
  \<open>fetch\<close> among it) are as before, and no exception leaves the call.
\<close>

theorem blank_input_noop:
  "trim (input_value c) = [] \<Longrightarrow> sendMessage w c = (None, c)"
  by (simp add: sendMessage_def)

text \<open>An input of a space, a tab, a line feed and a no-break space, and an empty input.\<close>

theorem blank_input_noop_witness:
  "sendMessage offline_world (fresh_page\<lparr>input_value := blank_input\<rparr>) =
     (None, fresh_page\<lparr>input_value := blank_input\<rparr>) \<and>
   sendMessage offline_world fresh_page = (None, fresh_page)"
proof -
  have "trim (input_value (fresh_page\<lparr>input_value := blank_input\<rparr>)) = []"
    by (simp add: trim_words)
  moreover have "trim (input_value fresh_page) = []"
    by (simp add: trim_def fresh_page_def)
  ultimately show ?thesis
    using blank_input_noop [of "fresh_page\<lparr>input_value := blank_input\<rparr>" offline_world]
      blank_input_noop [of fresh_page offline_world]
    by simp
qed

end
